theory Spec2Isabelle
  imports Complex_Main
begin

section \<open>HuizenZoeker: normalisation, cross-source deduplication, change tracking\<close>

text \<open>
  A shallow embedding of the rental monitor's core: \<^verbatim>\<open>src/dedupe/engine.py\<close>,
  \<^verbatim>\<open>src/matcher/neighborhood.py\<close>, the filter and dedupe steps of
  \<^verbatim>\<open>src/pipeline.py\<close>, \<^verbatim>\<open>BaseCollector.safe_collect\<close>, and the constants of
  \<^verbatim>\<open>src/config.py\<close>.

  Conventions. Python's \<^verbatim>\<open>float\<close> is modelled by \<^typ>\<open>real\<close>; a \<^verbatim>\<open>str\<close> by
  \<^typ>\<open>string\<close>, restricted to ASCII text; \<^verbatim>\<open>str | None\<close> by \<^typ>\<open>string option\<close>.
  Python's truth test on a string (\<^verbatim>\<open>if s\<close>) is \<open>s \<noteq> []\<close>, on an optional string
  it is \<open>truthy\<close> below. Library functions that are not part of the repository
  (\<^verbatim>\<open>rapidfuzz.fuzz.token_sort_ratio\<close>, \<^verbatim>\<open>urllib.parse.urlparse\<close>) are parameters of
  the functions that call them.
\<close>

subsection \<open>Configuration (\<^verbatim>\<open>src/config.py\<close>)\<close>

definition MAX_PRICE_EUR :: real where
  "MAX_PRICE_EUR = 2500"

definition DEDUPE_PRICE_TOLERANCE_EUR :: real where
  "DEDUPE_PRICE_TOLERANCE_EUR = 50"

definition DEDUPE_AREA_TOLERANCE_M2 :: real where
  "DEDUPE_AREA_TOLERANCE_M2 = 5"

definition DEDUPE_COMBINED_THRESHOLD :: real where
  "DEDUPE_COMBINED_THRESHOLD = 70 / 100"


subsection \<open>Python string primitives on ASCII text\<close>

text \<open>
  \<^verbatim>\<open>\s\<close> of \<^verbatim>\<open>re\<close> on \<^verbatim>\<open>str\<close> and \<^verbatim>\<open>str.strip()\<close> agree on ASCII: the characters
  9 to 13, 28 to 31 and the blank.
\<close>

definition is_space :: "char \<Rightarrow> bool" where
  "is_space c = (let n = of_char c :: nat in (9 \<le> n \<and> n \<le> 13) \<or> (28 \<le> n \<and> n \<le> 32))"

definition lower_char :: "char \<Rightarrow> char" where
  "lower_char c =
     (let n = of_char c :: nat in if 65 \<le> n \<and> n \<le> 90 then char_of (n + 32) else c)"

definition py_lower :: "string \<Rightarrow> string" where
  "py_lower s = map lower_char s"

definition py_strip :: "string \<Rightarrow> string" where
  "py_strip s = rev (dropWhile is_space (rev (dropWhile is_space s)))"

text \<open>
  \<^verbatim>\<open>re.sub(r"[...]+", " ", s)\<close> for a character class \<open>P\<close>: every maximal run of
  characters of the class becomes one blank. \<open>in_run\<close> says that the previous character
  was in the class. \<^verbatim>\<open>re.sub(r"\s+", " ", s)\<close> is the instance for whitespace.
\<close>

fun sub_runs :: "(char \<Rightarrow> bool) \<Rightarrow> bool \<Rightarrow> string \<Rightarrow> string" where
  "sub_runs P in_run [] = []"
| "sub_runs P in_run (c # cs) =
     (if P c then (if in_run then sub_runs P True cs else CHR '' '' # sub_runs P True cs)
      else c # sub_runs P False cs)"

definition collapse_ws :: "string \<Rightarrow> string" where
  "collapse_ws s = sub_runs is_space False s"

definition truthy :: "string option \<Rightarrow> bool" where
  "truthy h = (case h of None \<Rightarrow> False | Some s \<Rightarrow> s \<noteq> [])"

subsection \<open>Data model\<close>

text \<open>
  The fields of \<^verbatim>\<open>NormalizedListing\<close> that the dedupe engine and the pipeline's filter
  read. The class has no \<^verbatim>\<open>dedupe_id\<close> field: the pipeline builds it from a stored
  row field by field (\<^verbatim>\<open>pipeline.py\<close>, lines 91 to 110) and passes none.
\<close>

record NormalizedListing =
  source :: string
  source_id :: "string option"
  url :: string
  title :: string
  raw_location_text :: string
  neighborhood_match :: "string option"
  price_total_eur :: "real option"
  area_m2 :: "real option"
  images_hash :: "string option"

record DedupeScore =
  title_sim :: real
  price_sim :: real
  area_sim :: real
  url_match :: bool
  images_match :: bool
  address_sim :: real
  combined :: real

subsection \<open>Dedupe engine (\<^verbatim>\<open>src/dedupe/engine.py\<close>)\<close>

text \<open>
  One prefix substitution of \<^verbatim>\<open>_clean_title\<close>: the pattern is the word \<open>w\<close>, then
  \<^verbatim>\<open>\s*[:!-]\s*\<close>, anchored at the start; the match is deleted. The first pattern,
  \<^verbatim>\<open>^te\s+huur\s*[:!-]\s*\<close>, has two words with at least one whitespace between.
\<close>

definition strip_sep :: "string \<Rightarrow> string option" where
  "strip_sep s =
     (case dropWhile is_space s of
        [] \<Rightarrow> None
      | c # cs \<Rightarrow> if c \<in> set '':!-'' then Some (dropWhile is_space cs) else None)"

definition strip_word :: "string \<Rightarrow> string \<Rightarrow> string option" where
  "strip_word w s = (if take (length w) s = w then Some (drop (length w) s) else None)"

definition sub_prefix :: "string \<Rightarrow> string \<Rightarrow> string" where
  "sub_prefix w s =
     (case strip_word w s of
        None \<Rightarrow> s
      | Some r \<Rightarrow> (case strip_sep r of None \<Rightarrow> s | Some r' \<Rightarrow> r'))"

definition sub_te_huur :: "string \<Rightarrow> string" where
  "sub_te_huur s =
     (case strip_word ''te'' s of
        None \<Rightarrow> s
      | Some r \<Rightarrow>
          (case r of
             [] \<Rightarrow> s
           | c # cs \<Rightarrow>
               if is_space c then
                 (case strip_word ''huur'' (dropWhile is_space cs) of
                    None \<Rightarrow> s
                  | Some r' \<Rightarrow> (case strip_sep r' of None \<Rightarrow> s | Some r'' \<Rightarrow> r''))
               else s))"

definition clean_title :: "string \<Rightarrow> string" where
  "clean_title t =
     py_strip (collapse_ws
       (sub_prefix ''studio'' (sub_prefix ''appartement''
         (sub_prefix ''huurwoning'' (sub_te_huur (py_lower t))))))"

text \<open>
  \<^verbatim>\<open>_urls_same_property\<close>: the parser \<open>up\<close> stands for \<^verbatim>\<open>urlparse\<close> and returns the
  pair (netloc, path).
\<close>

definition urls_same_property :: "(string \<Rightarrow> string \<times> string) \<Rightarrow> string \<Rightarrow> string \<Rightarrow> bool" where
  "urls_same_property up url_a url_b =
     (fst (up url_a) = fst (up url_b) \<and> snd (up url_a) = snd (up url_b))"

text \<open>
  \<^verbatim>\<open>compute_dedupe_score\<close>; \<open>tsr\<close> stands for \<^verbatim>\<open>fuzz.token_sort_ratio\<close>, a number
  between 0 and 100.
\<close>

definition closeness :: "real \<Rightarrow> real option \<Rightarrow> real option \<Rightarrow> real \<Rightarrow> real" where
  "closeness tol x y neutral =
     (case (x, y) of
        (Some p, Some q) \<Rightarrow>
          (let diff = \<bar>p - q\<bar> in if diff \<le> tol then 1 - diff / max tol 1 else 0)
      | (None, None) \<Rightarrow> neutral
      | _ \<Rightarrow> 0)"

text \<open>The weighted sum of lines 88 to 95 and the two floors of lines 98 to 101.\<close>

definition weighted_sum :: "real \<Rightarrow> real \<Rightarrow> real \<Rightarrow> bool \<Rightarrow> bool \<Rightarrow> real \<Rightarrow> real" where
  "weighted_sum t p ar u im ad =
     25 / 100 * t + 20 / 100 * p + 15 / 100 * ar
     + 10 / 100 * (if u then 1 else 0)
     + 15 / 100 * (if im then 1 else 0)
     + 15 / 100 * ad"

definition boost :: "bool \<Rightarrow> bool \<Rightarrow> real \<Rightarrow> real" where
  "boost im u c =
     (let c1 = (if im then max c (85 / 100) else c)
      in if u then max c1 (90 / 100) else c1)"

definition compute_dedupe_score ::
  "(string \<Rightarrow> string \<Rightarrow> real) \<Rightarrow> (string \<Rightarrow> string \<times> string) \<Rightarrow>
   NormalizedListing \<Rightarrow> NormalizedListing \<Rightarrow> DedupeScore" where
  "compute_dedupe_score tsr up a b =
     (let t = (if title a \<noteq> [] \<and> title b \<noteq> []
               then tsr (clean_title (title a)) (clean_title (title b)) / 100 else 0);
          p = closeness DEDUPE_PRICE_TOLERANCE_EUR (price_total_eur a) (price_total_eur b) (5 / 10);
          ar = closeness DEDUPE_AREA_TOLERANCE_M2 (area_m2 a) (area_m2 b) (3 / 10);
          u = (if url a \<noteq> [] \<and> url b \<noteq> [] then urls_same_property up (url a) (url b)
               else False);
          im = (if truthy (images_hash a) \<and> truthy (images_hash b)
                then images_hash a = images_hash b else False);
          ad = (if raw_location_text a \<noteq> [] \<and> raw_location_text b \<noteq> []
                then tsr (py_lower (raw_location_text a)) (py_lower (raw_location_text b)) / 100
                else 0)
      in \<lparr>title_sim = t, price_sim = p, area_sim = ar, url_match = u, images_match = im,
          address_sim = ad, combined = boost im u (weighted_sum t p ar u im ad)\<rparr>)"

text \<open>
  Stand-ins for the two library functions, used only where a theorem is evaluated at a
  concrete input: a ratio that is 100 on equal strings and 0 otherwise, and a parser for
  URLs of the shape \<^verbatim>\<open>scheme://netloc/path\<close>.
\<close>

definition exact_ratio :: "string \<Rightarrow> string \<Rightarrow> real" where
  "exact_ratio x y = (if x = y then 100 else 0)"

definition simple_urlparse :: "string \<Rightarrow> string \<times> string" where
  "simple_urlparse u =
     (let r = drop 2 (dropWhile (\<lambda>c. c \<noteq> CHR ''/'') u)
      in (takeWhile (\<lambda>c. c \<noteq> CHR ''/'') r, dropWhile (\<lambda>c. c \<noteq> CHR ''/'') r))"

definition listing_a :: NormalizedListing where
  "listing_a = \<lparr>source = ''Pararius'', source_id = Some ''123'',
     url = ''https://example.com/listing/123'', title = ''Nice apartment in De Pijp'',
     raw_location_text = ''De Pijp, Amsterdam'', neighborhood_match = Some ''De Pijp'',
     price_total_eur = Some 1500, area_m2 = Some 65, images_hash = Some ''abc123''\<rparr>"

definition listing_b :: NormalizedListing where
  "listing_b = \<lparr>source = ''Funda'', source_id = Some ''456'',
     url = ''https://example.com/listing/123'', title = ''Studio'',
     raw_location_text = ''Amsterdam'', neighborhood_match = Some ''De Pijp'',
     price_total_eur = Some 2100, area_m2 = None, images_hash = Some ''abc123''\<rparr>"

text \<open>A listing with no text, no neighbourhood match and no price.\<close>

definition listing_e1 :: NormalizedListing where
  "listing_e1 = \<lparr>source = ''Pararius'', source_id = Some ''1'', url = [], title = [],
     raw_location_text = [], neighborhood_match = None,
     price_total_eur = None, area_m2 = None, images_hash = None\<rparr>"

subsection \<open>\<^verbatim>\<open>find_duplicate\<close>\<close>

text \<open>
  The loop state is the pair of local variables \<^verbatim>\<open>(best_match_idx, best_score)\<close>, both
  \<^verbatim>\<open>None\<close> at the start. \<open>find_duplicate_step\<close> is one iteration of the loop body at
  index \<open>i\<close>; the two \<^verbatim>\<open>continue\<close> branches leave the state as it is.
\<close>

type_synonym best_state = "nat option \<times> DedupeScore option"

definition find_duplicate_step ::
  "(string \<Rightarrow> string \<Rightarrow> real) \<Rightarrow> (string \<Rightarrow> string \<times> string) \<Rightarrow>
   NormalizedListing \<Rightarrow> nat \<Rightarrow> NormalizedListing \<Rightarrow> best_state \<Rightarrow> best_state" where
  "find_duplicate_step tsr up listing i existing_listing st =
     (if source existing_listing = source listing then st
      else if truthy (neighborhood_match listing)
              \<and> truthy (neighborhood_match existing_listing)
              \<and> neighborhood_match listing \<noteq> neighborhood_match existing_listing then st
      else
        (let score = compute_dedupe_score tsr up listing existing_listing
         in if DEDUPE_COMBINED_THRESHOLD \<le> combined score
            then (case snd st of
                    None \<Rightarrow> (Some i, Some score)
                  | Some best_score \<Rightarrow>
                      if combined best_score < combined score then (Some i, Some score) else st)
            else st))"

fun find_duplicate_loop ::
  "(string \<Rightarrow> string \<Rightarrow> real) \<Rightarrow> (string \<Rightarrow> string \<times> string) \<Rightarrow>
   NormalizedListing \<Rightarrow> nat \<Rightarrow> NormalizedListing list \<Rightarrow> best_state \<Rightarrow> best_state" where
  "find_duplicate_loop tsr up listing i [] st = st"
| "find_duplicate_loop tsr up listing i (e # es) st =
     find_duplicate_loop tsr up listing (Suc i) es (find_duplicate_step tsr up listing i e st)"

definition find_duplicate ::
  "(string \<Rightarrow> string \<Rightarrow> real) \<Rightarrow> (string \<Rightarrow> string \<times> string) \<Rightarrow>
   NormalizedListing \<Rightarrow> NormalizedListing list \<Rightarrow> string option \<times> DedupeScore option" where
  "find_duplicate tsr up listing existing =
     (case find_duplicate_loop tsr up listing 0 existing (None, None) of
        (Some best_match_idx, Some best_score) \<Rightarrow>
          (source_id (existing ! best_match_idx), Some best_score)
      | _ \<Rightarrow> (None, None))"

text \<open>
  The claim's words for \<^verbatim>\<open>find_duplicate\<close>: a candidate is considered when it comes
  from another source and its matched neighbourhood does not disagree with the listing's
  (both known and different); it qualifies when, in addition, its combined score reaches
  the threshold.
\<close>

definition considered :: "NormalizedListing \<Rightarrow> NormalizedListing \<Rightarrow> bool" where
  "considered listing e =
     (source e \<noteq> source listing
      \<and> \<not> (truthy (neighborhood_match listing) \<and> truthy (neighborhood_match e)
             \<and> neighborhood_match listing \<noteq> neighborhood_match e))"

definition qualifies ::
  "(string \<Rightarrow> string \<Rightarrow> real) \<Rightarrow> (string \<Rightarrow> string \<times> string) \<Rightarrow>
   NormalizedListing \<Rightarrow> NormalizedListing \<Rightarrow> bool" where
  "qualifies tsr up listing e =
     (considered listing e
      \<and> DEDUPE_COMBINED_THRESHOLD \<le> combined (compute_dedupe_score tsr up listing e))"

text \<open>The invariant of the loop after the candidates \<open>xs\<close> have been scanned.\<close>

definition best_inv ::
  "(string \<Rightarrow> string \<Rightarrow> real) \<Rightarrow> (string \<Rightarrow> string \<times> string) \<Rightarrow>
   NormalizedListing \<Rightarrow> NormalizedListing list \<Rightarrow> best_state \<Rightarrow> bool" where
  "best_inv tsr up listing xs st =
     (case st of
        (None, None) \<Rightarrow> (\<forall>e \<in> set xs. \<not> qualifies tsr up listing e)
      | (Some k, Some s) \<Rightarrow>
          k < length xs \<and> qualifies tsr up listing (xs ! k)
          \<and> s = compute_dedupe_score tsr up listing (xs ! k)
          \<and> (\<forall>j < length xs. qualifies tsr up listing (xs ! j) \<longrightarrow>
                 combined (compute_dedupe_score tsr up listing (xs ! j)) \<le> combined s)
          \<and> (\<forall>j < k. qualifies tsr up listing (xs ! j) \<longrightarrow>
                 combined (compute_dedupe_score tsr up listing (xs ! j)) < combined s)
      | _ \<Rightarrow> False)"

subsection \<open>The filter step of \<^verbatim>\<open>run_pipeline\<close> (\<^verbatim>\<open>src/pipeline.py\<close>, lines 61 to 77)\<close>

text \<open>The loop state is \<^verbatim>\<open>(kept, filtered_count)\<close>.\<close>

fun filter_loop ::
  "NormalizedListing list \<Rightarrow> NormalizedListing list \<times> nat \<Rightarrow> NormalizedListing list \<times> nat" where
  "filter_loop [] st = st"
| "filter_loop (listing # rest) (kept, filtered_count) =
     (if neighborhood_match listing = None then filter_loop rest (kept, filtered_count + 1)
      else
        (case price_total_eur listing of
           Some p \<Rightarrow>
             if MAX_PRICE_EUR \<le> p then filter_loop rest (kept, filtered_count + 1)
             else filter_loop rest (kept @ [listing], filtered_count)
         | None \<Rightarrow> filter_loop rest (kept @ [listing], filtered_count)))"

definition filter_listings :: "NormalizedListing list \<Rightarrow> NormalizedListing list \<times> nat" where
  "filter_listings normalized = filter_loop normalized ([], 0)"

definition dropped :: "NormalizedListing \<Rightarrow> bool" where
  "dropped listing =
     (neighborhood_match listing = None
      \<or> (case price_total_eur listing of None \<Rightarrow> False | Some p \<Rightarrow> MAX_PRICE_EUR \<le> p))"

text \<open>Further concrete listings, for evaluating the functions above.\<close>

definition listing_c :: NormalizedListing where
  "listing_c = \<lparr>source = ''Pararius'', source_id = Some ''124'',
     url = ''https://example.com/listing/123'', title = ''Nice apartment in De Pijp'',
     raw_location_text = ''De Pijp, Amsterdam'', neighborhood_match = Some ''De Pijp'',
     price_total_eur = Some 1500, area_m2 = Some 65, images_hash = Some ''abc123''\<rparr>"

definition listing_d :: NormalizedListing where
  "listing_d = \<lparr>source = ''Funda'', source_id = Some ''455'',
     url = ''https://example.com/listing/123'', title = ''Nice apartment in De Pijp'',
     raw_location_text = ''De Pijp, Amsterdam'', neighborhood_match = Some ''Centrum'',
     price_total_eur = Some 1500, area_m2 = Some 65, images_hash = Some ''abc123''\<rparr>"

definition listing_f :: NormalizedListing where
  "listing_f = \<lparr>source = ''Vesteda'', source_id = Some ''789'',
     url = ''https://example.com/listing/123'', title = ''Studio'',
     raw_location_text = ''Amsterdam'', neighborhood_match = None,
     price_total_eur = Some 2100, area_m2 = None, images_hash = Some ''abc123''\<rparr>"

definition listing_g :: NormalizedListing where
  "listing_g = \<lparr>source = ''Vesteda'', source_id = None,
     url = ''https://vesteda.example/w/7'', title = ''Appartement Ferdinand Bolstraat'',
     raw_location_text = ''De Pijp'', neighborhood_match = Some ''De Pijp'',
     price_total_eur = None, area_m2 = Some 40, images_hash = None\<rparr>"

definition candidates :: "NormalizedListing list" where
  "candidates = [listing_c, listing_d, listing_b, listing_f]"

subsection \<open>The dedupe step of \<^verbatim>\<open>run_pipeline\<close> (\<^verbatim>\<open>src/pipeline.py\<close>, lines 87 to 149)\<close>

text \<open>
  A stored row has the fields of a normalized listing and a \<^verbatim>\<open>dedupe_id\<close> (the row's
  lifecycle fields are with the change-tracking store below). \<open>to_normalized\<close> is the
  field-by-field copy of lines 91 to 110.
\<close>

record StoredListing = NormalizedListing +
  dedupe_id :: string

definition to_normalized :: "StoredListing \<Rightarrow> NormalizedListing" where
  "to_normalized sl =
     \<lparr>source = source sl, source_id = source_id sl, url = url sl, title = title sl,
      raw_location_text = raw_location_text sl, neighborhood_match = neighborhood_match sl,
      price_total_eur = price_total_eur sl, area_m2 = area_m2 sl,
      images_hash = images_hash sl\<rparr>"

text \<open>
  \<^verbatim>\<open>existing_dedupe_map\<close>: a dict comprehension over the rows with a truthy
  \<^verbatim>\<open>source_id\<close>; a later row overwrites an earlier one with the same key.
\<close>

definition existing_dedupe_map ::
  "StoredListing list \<Rightarrow> (string \<times> string option) \<rightharpoonup> string" where
  "existing_dedupe_map existing_listings =
     map_of (rev (map (\<lambda>sl. ((source sl, source_id sl), dedupe_id sl))
                    (filter (\<lambda>sl. truthy (source_id sl)) existing_listings)))"

text \<open>The cross-source loop; its state is \<^verbatim>\<open>(best_dedupe_id, best_score)\<close>.\<close>

definition cross_source_step ::
  "(string \<Rightarrow> string \<Rightarrow> real) \<Rightarrow> (string \<Rightarrow> string \<times> string) \<Rightarrow> NormalizedListing \<Rightarrow>
   NormalizedListing \<times> StoredListing \<Rightarrow> string option \<times> real \<Rightarrow> string option \<times> real" where
  "cross_source_step tsr up listing pair st =
     (let existing_norm = fst pair; existing_stored = snd pair
      in if source existing_norm = source listing then st
         else
           (let score = compute_dedupe_score tsr up listing existing_norm
            in if DEDUPE_COMBINED_THRESHOLD \<le> combined score \<and> snd st < combined score
               then (Some (dedupe_id existing_stored), combined score)
               else st))"

fun cross_source_loop ::
  "(string \<Rightarrow> string \<Rightarrow> real) \<Rightarrow> (string \<Rightarrow> string \<times> string) \<Rightarrow> NormalizedListing \<Rightarrow>
   (NormalizedListing \<times> StoredListing) list \<Rightarrow> string option \<times> real \<Rightarrow> string option \<times> real" where
  "cross_source_loop tsr up listing [] st = st"
| "cross_source_loop tsr up listing (pair # rest) st =
     cross_source_loop tsr up listing rest (cross_source_step tsr up listing pair st)"

text \<open>
  \<^verbatim>\<open>generate_dedupe_id()\<close> is \<^verbatim>\<open>str(uuid.uuid4())\<close> (\<^verbatim>\<open>engine.py\<close>, lines 33 to 35).
  \<^verbatim>\<open>uuid4\<close> is a library call that draws a random UUID; the model takes the UUID it
  draws, as its 16 bytes, as an argument. \<^verbatim>\<open>str\<close> writes the bytes as 32 lower-case
  hexadecimal digits in groups of 8, 4, 4, 4 and 12, joined by hyphens.
\<close>

type_synonym uuid = "nat list"

definition is_uuid :: "uuid \<Rightarrow> bool" where
  "is_uuid u = (length u = 16 \<and> list_all (\<lambda>b. b < 256) u)"

definition hex_digit :: "nat \<Rightarrow> char" where
  "hex_digit d = ''0123456789abcdef'' ! d"

definition hex_byte :: "nat \<Rightarrow> string" where
  "hex_byte b = [hex_digit (b div 16), hex_digit (b mod 16)]"

definition hex_bytes :: "nat list \<Rightarrow> string" where
  "hex_bytes bs = concat (map hex_byte bs)"

definition uuid_str :: "uuid \<Rightarrow> string" where
  "uuid_str u =
     (let h = hex_bytes u
      in take 8 h @ ''-'' @ take 4 (drop 8 h) @ ''-'' @ take 4 (drop 12 h) @ ''-''
         @ take 4 (drop 16 h) @ ''-'' @ drop 20 h)"

definition generate_dedupe_id :: "uuid \<Rightarrow> string" where
  "generate_dedupe_id drawn = uuid_str drawn"

text \<open>
  \<open>drawn\<close> is the UUID that \<^verbatim>\<open>uuid4\<close> draws if \<^verbatim>\<open>generate_dedupe_id()\<close> is called.
  \<^verbatim>\<open>best_dedupe_id or generate_dedupe_id()\<close> takes the generated value when
  \<^verbatim>\<open>best_dedupe_id\<close> is \<^verbatim>\<open>None\<close> or the empty string.
\<close>

definition resolve_dedupe_id ::
  "(string \<Rightarrow> string \<Rightarrow> real) \<Rightarrow> (string \<Rightarrow> string \<times> string) \<Rightarrow> uuid \<Rightarrow>
   StoredListing list \<Rightarrow> NormalizedListing \<Rightarrow> string" where
  "resolve_dedupe_id tsr up drawn existing_listings listing =
     (let existing_normalized = map to_normalized existing_listings
      in case existing_dedupe_map existing_listings (source listing, source_id listing) of
           Some found \<Rightarrow> found
         | None \<Rightarrow>
             (case fst (cross_source_loop tsr up listing
                          (zip existing_normalized existing_listings) (None, 0)) of
                None \<Rightarrow> generate_dedupe_id drawn
              | Some best_dedupe_id \<Rightarrow>
                  if best_dedupe_id \<noteq> [] then best_dedupe_id else generate_dedupe_id drawn))"

text \<open>
  The claim's words: an ACTIVE row from a different source whose combined score with the
  record reaches the threshold.
\<close>

definition stored_score ::
  "(string \<Rightarrow> string \<Rightarrow> real) \<Rightarrow> (string \<Rightarrow> string \<times> string) \<Rightarrow>
   NormalizedListing \<Rightarrow> StoredListing \<Rightarrow> real" where
  "stored_score tsr up listing sl = combined (compute_dedupe_score tsr up listing (to_normalized sl))"

definition cross_match ::
  "(string \<Rightarrow> string \<Rightarrow> real) \<Rightarrow> (string \<Rightarrow> string \<times> string) \<Rightarrow>
   NormalizedListing \<Rightarrow> StoredListing \<Rightarrow> bool" where
  "cross_match tsr up listing sl =
     (source sl \<noteq> source listing \<and> DEDUPE_COMBINED_THRESHOLD \<le> stored_score tsr up listing sl)"

definition cross_inv ::
  "(string \<Rightarrow> string \<Rightarrow> real) \<Rightarrow> (string \<Rightarrow> string \<times> string) \<Rightarrow>
   NormalizedListing \<Rightarrow> StoredListing list \<Rightarrow> string option \<times> real \<Rightarrow> bool" where
  "cross_inv tsr up listing xs st =
     (case fst st of
        None \<Rightarrow> snd st = 0 \<and> (\<forall>sl \<in> set xs. \<not> cross_match tsr up listing sl)
      | Some d \<Rightarrow>
          (\<exists>k < length xs.
             d = dedupe_id (xs ! k) \<and> snd st = stored_score tsr up listing (xs ! k)
             \<and> cross_match tsr up listing (xs ! k)
             \<and> (\<forall>j < length xs. cross_match tsr up listing (xs ! j) \<longrightarrow>
                    stored_score tsr up listing (xs ! j) \<le> stored_score tsr up listing (xs ! k))
             \<and> (\<forall>j < k. cross_match tsr up listing (xs ! j) \<longrightarrow>
                    stored_score tsr up listing (xs ! j) < stored_score tsr up listing (xs ! k))))"

definition pairs :: "StoredListing list \<Rightarrow> (NormalizedListing \<times> StoredListing) list" where
  "pairs xs = zip (map to_normalized xs) xs"

definition stored_b :: StoredListing where
  "stored_b = \<lparr>source = ''Funda'', source_id = Some ''456'',
     url = ''https://example.com/listing/123'', title = ''Studio'',
     raw_location_text = ''Amsterdam'', neighborhood_match = Some ''De Pijp'',
     price_total_eur = Some 2100, area_m2 = None, images_hash = Some ''abc123'',
     dedupe_id = ''0b8f6c1e-4d2a-4b7e-9c3f-5a1d2e3f4a5b''\<rparr>"

definition stored_d :: StoredListing where
  "stored_d = \<lparr>source = ''Funda'', source_id = Some ''455'',
     url = ''https://example.com/listing/123'', title = ''Nice apartment in De Pijp'',
     raw_location_text = ''De Pijp, Amsterdam'', neighborhood_match = Some ''Centrum'',
     price_total_eur = Some 1500, area_m2 = Some 65, images_hash = Some ''abc123'',
     dedupe_id = ''7d2a9e40-1c5b-4f0a-8e6d-112233445566''\<rparr>"

text \<open>A stored row of the source of \<open>listing_a\<close>, with another \<^verbatim>\<open>source_id\<close>.\<close>

definition stored_p :: StoredListing where
  "stored_p = \<lparr>source = ''Pararius'', source_id = Some ''999'',
     url = ''https://example.com/listing/999'', title = ''Nice apartment in De Pijp'',
     raw_location_text = ''De Pijp, Amsterdam'', neighborhood_match = Some ''De Pijp'',
     price_total_eur = Some 1500, area_m2 = Some 65, images_hash = None,
     dedupe_id = ''0b8f6c1e-4d2a-4b7e-9c3f-5a1d2e3f4a5b''\<rparr>"

text \<open>The UUIDs behind the two stored ids, and a third one, drawn for a new record.\<close>

definition uuid_b :: uuid where
  "uuid_b = [11, 143, 108, 30, 77, 42, 75, 126, 156, 63, 90, 29, 46, 63, 74, 91]"

definition uuid_d :: uuid where
  "uuid_d = [125, 42, 158, 64, 28, 91, 79, 10, 142, 109, 17, 34, 51, 68, 85, 102]"

definition uuid_new :: uuid where
  "uuid_new = [58, 199, 1, 254, 144, 12, 65, 215, 179, 8, 0, 97, 226, 33, 160, 73]"

subsection \<open>\<^verbatim>\<open>BaseCollector.safe_collect\<close> (\<^verbatim>\<open>src/collectors/base.py\<close>)\<close>

text \<open>
  A Python exception, by its message: an instance of \<^verbatim>\<open>Exception\<close> (an
  \<^verbatim>\<open>httpx.HTTPError\<close>, a \<^verbatim>\<open>ValueError\<close>, ...), or an instance of a class that derives from
  \<^verbatim>\<open>BaseException\<close> only (\<^verbatim>\<open>KeyboardInterrupt\<close>, \<^verbatim>\<open>SystemExit\<close>, \<^verbatim>\<open>GeneratorExit\<close>).
  The clause \<^verbatim>\<open>except Exception\<close> catches the first kind only.
\<close>

datatype py_exception = Exception_instance string | BaseException_only string

text \<open>
  The abstract method \<^verbatim>\<open>collect()\<close> either returns a list of raw listings or raises an
  exception. \<open>Raises e gathered\<close> also records the listings that \<^verbatim>\<open>collect()\<close> had
  appended to its local list when it raised; they are not visible to the caller. A raw
  listing is any type \<open>'r\<close>.

  \<open>safe_collect\<close> returns the outcome of the call, \<open>Inr\<close> the returned list or \<open>Inl\<close> the
  exception that propagates to the caller, and the records it wrote to the log.
\<close>

datatype 'r collect_outcome = Returns "'r list" | Raises py_exception "'r list"

datatype log_record = Info_collected string nat | Error_collection_failed string string

definition safe_collect ::
  "string \<Rightarrow> 'r collect_outcome \<Rightarrow> (py_exception + 'r list) \<times> log_record list" where
  "safe_collect SOURCE_NAME outcome =
     (case outcome of
        Returns listings \<Rightarrow> (Inr listings, [Info_collected SOURCE_NAME (length listings)])
      | Raises exc gathered \<Rightarrow>
          (case exc of
             Exception_instance e \<Rightarrow> (Inr [], [Error_collection_failed SOURCE_NAME e])
           | BaseException_only e \<Rightarrow> (Inl exc, [])))"

subsection \<open>Neighbourhood matcher (\<^verbatim>\<open>src/matcher/neighborhood.py\<close>)\<close>

text \<open>The registry of \<^verbatim>\<open>config.py\<close>, in the insertion order of the dict.\<close>

definition TARGET_NEIGHBORHOODS :: "(string \<times> string list) list" where
  "TARGET_NEIGHBORHOODS =
     [(''De Baarsjes'', [''de baarsjes'', ''baarsjes'', ''amsterdam-west de baarsjes'',
                         ''amsterdam west de baarsjes'']),
      (''Centrum'', [''centrum'', ''amsterdam centrum'', ''amsterdam-centrum'', ''binnenstad'']),
      (''Houthavens'', [''houthavens'', ''houthaven'']),
      (''Oud-West'', [''oud-west'', ''oud west'', ''oudwest'', ''amsterdam oud-west'',
                      ''amsterdam oud west'']),
      (''Oud-Zuid'', [''oud-zuid'', ''oud zuid'', ''oudzuid'', ''amsterdam oud-zuid'',
                      ''amsterdam oud zuid'', ''amsterdam-zuid oud-zuid'']),
      (''De Pijp'', [''de pijp'', ''pijp'', ''depijp'']),
      (''Plantagebuurt'', [''plantagebuurt'', ''plantage'', ''plantage buurt'']),
      (''Rivierenbuurt'', [''rivierenbuurt'', ''rivieren buurt'']),
      (''Schinkelbuurt'', [''schinkelbuurt'', ''schinkel buurt'', ''schinkel'']),
      (''Weesperzijde'', [''weesperzijde'']),
      (''Westerpark'', [''westerpark'', ''wester park''])]"

record NeighborhoodResult =
  name :: "string option"
  confidence :: real
  ambiguous :: bool

text \<open>\<^verbatim>\<open>_normalize_text\<close>; the first substitution is over the class \<^verbatim>\<open>[,.\-/|()]\<close>.\<close>

definition is_punct :: "char \<Rightarrow> bool" where
  "is_punct c = (c \<in> set '',.-/|()'')"

definition normalize_text :: "string \<Rightarrow> string" where
  "normalize_text text =
     py_strip (sub_runs is_space False (sub_runs is_punct False (py_lower text)))"

text \<open>
  \<^verbatim>\<open>re.search\<close> of the pattern \<^verbatim>\<open>(?:^|\s|,) + re.escape(v) + (?:\s|,|$)\<close>: the variant
  \<open>v\<close> stands at the start of the text or after a whitespace or a comma, and is followed
  by a whitespace, a comma or the end of the text.
\<close>

definition is_boundary :: "char \<Rightarrow> bool" where
  "is_boundary c = (is_space c \<or> c = CHR '','')"

definition word_at :: "string \<Rightarrow> string \<Rightarrow> bool" where
  "word_at v t =
     (take (length v) t = v
      \<and> (case drop (length v) t of [] \<Rightarrow> True | d # _ \<Rightarrow> is_boundary d))"

fun search_after :: "string \<Rightarrow> string \<Rightarrow> bool" where
  "search_after v [] = False"
| "search_after v (c # cs) = ((is_boundary c \<and> word_at v cs) \<or> search_after v cs)"

definition re_search :: "string \<Rightarrow> string \<Rightarrow> bool" where
  "re_search v t = (word_at v t \<or> search_after v t)"

text \<open>
  The three nested loops of \<^verbatim>\<open>match_neighborhood\<close>. The fields are the pairs of a
  normalized text and its weight, in the order location, title, description.
\<close>

fun fields_loop :: "string \<Rightarrow> (string \<times> real) list \<Rightarrow> real \<Rightarrow> real" where
  "fields_loop norm_variant [] best_score = best_score"
| "fields_loop norm_variant ((field_text, weight) # fields_w) best_score =
     (if field_text = [] then fields_loop norm_variant fields_w best_score
      else if re_search norm_variant field_text
      then fields_loop norm_variant fields_w
             (max best_score
                (if 8 < length norm_variant then min 1 (weight + 5 / 100) else weight))
      else fields_loop norm_variant fields_w best_score)"

fun variants_loop :: "string list \<Rightarrow> (string \<times> real) list \<Rightarrow> real \<Rightarrow> real" where
  "variants_loop [] fields_w best_score = best_score"
| "variants_loop (variant # variants) fields_w best_score =
     variants_loop variants fields_w (fields_loop (normalize_text variant) fields_w best_score)"

fun neighborhoods_loop ::
  "(string \<times> string list) list \<Rightarrow> (string \<times> real) list \<Rightarrow> (string \<times> real) list \<Rightarrow>
   (string \<times> real) list" where
  "neighborhoods_loop [] fields_w matches = matches"
| "neighborhoods_loop ((canonical_name, variants) # rest) fields_w matches =
     (let best_score = variants_loop variants fields_w 0
      in neighborhoods_loop rest fields_w
           (if 0 < best_score then matches @ [(canonical_name, best_score)] else matches))"

definition neighborhood_matches ::
  "(string \<times> string list) list \<Rightarrow> string \<Rightarrow> string \<Rightarrow> string \<Rightarrow> (string \<times> real) list" where
  "neighborhood_matches registry title_text location_text description =
     neighborhoods_loop registry
       [(normalize_text location_text, 9 / 10), (normalize_text title_text, 8 / 10),
        (normalize_text description, 6 / 10)] []"

text \<open>
  \<^verbatim>\<open>sorted(matches.items(), key=lambda x: x[1], reverse=True)\<close> is stable: entries with
  equal scores keep their order. \<open>sort_key\<close> is a stable insertion sort.
\<close>

definition match_neighborhood_in ::
  "(string \<times> string list) list \<Rightarrow> string \<Rightarrow> string \<Rightarrow> string \<Rightarrow> NeighborhoodResult" where
  "match_neighborhood_in registry title_text location_text description =
     (case sort_key (\<lambda>x. - snd x)
             (neighborhood_matches registry title_text location_text description) of
        [] \<Rightarrow> \<lparr>name = None, confidence = 0, ambiguous = False\<rparr>
      | (best_name, best_conf) # others \<Rightarrow>
          (case others of
             [] \<Rightarrow> \<lparr>name = Some best_name, confidence = best_conf, ambiguous = False\<rparr>
           | (second_name, second_conf) # _ \<Rightarrow>
               \<lparr>name = Some (if best_conf = second_conf \<and> length best_name < length second_name
                              then second_name else best_name),
                confidence = best_conf,
                ambiguous = (best_conf - second_conf < 15 / 100)\<rparr>))"

definition match_neighborhood :: "string \<Rightarrow> string \<Rightarrow> string \<Rightarrow> NeighborhoodResult" where
  "match_neighborhood title_text location_text description =
     match_neighborhood_in TARGET_NEIGHBORHOODS title_text location_text description"

text \<open>A description that names three registered neighbourhoods.\<close>

definition tie_description :: string where
  "tie_description = ''Dichtbij De Baarsjes, Houthavens en Plantagebuurt.''"

subsection \<open>Change-tracking store\<close>

text \<open>
  Modelled from the spec: \<^verbatim>\<open>mark_missing\<close> and \<^verbatim>\<open>upsert_listing\<close> of
  \<^verbatim>\<open>src/storage/database.py\<close>, which is not among the source files (only their callers
  in \<^verbatim>\<open>pipeline.py\<close> and \<^verbatim>\<open>backend.py\<close> are). The definitions below follow section 4.5
  of the specification: the state machine of a stored row over \<open>status\<close> and
  \<open>missing_runs\<close>.
\<close>

datatype Status = ACTIVE | REMOVED

datatype ChangeType = NEW | CHANGED | REACTIVATED | UNCHANGED | REPORTED_REMOVED

datatype FieldChange =
  Price_change "real option" "real option"
| Title_change string string
| Description_change string string

record TrackedListing = StoredListing +
  status :: Status
  missing_runs :: nat
  change_log :: "FieldChange list list"

text \<open>
  Modelled from the spec: one run of \<^verbatim>\<open>mark_missing\<close> on a row that is a miss.
  ``\<open>missing_runs\<close> increments; while below the removal threshold the row stays ACTIVE;
  at/above threshold it transitions to REMOVED and is reported as such'': the second
  component says whether the row is in the returned list of newly REMOVED records. Only
  ACTIVE rows can be a miss, so a REMOVED row is left as it is.
\<close>

definition miss_step :: "nat \<Rightarrow> TrackedListing \<Rightarrow> TrackedListing \<times> bool" where
  "miss_step threshold row =
     (if status row = ACTIVE then
        (let m = missing_runs row + 1
         in if threshold \<le> m then (row\<lparr>missing_runs := m, status := REMOVED\<rparr>, True)
            else (row\<lparr>missing_runs := m\<rparr>, False))
      else (row, False))"

text \<open>
  Modelled from the spec: the identity of a row is its \<^verbatim>\<open>source_id\<close> ``or, failing that,''
  its \<^verbatim>\<open>url\<close>; a miss is an ACTIVE row of the source whose identity was not seen in the
  run. \<^verbatim>\<open>mark_missing\<close> returns the updated rows and the newly REMOVED ones.
\<close>

definition row_identity :: "TrackedListing \<Rightarrow> string" where
  "row_identity row = (if truthy (source_id row) then the (source_id row) else url row)"

definition is_miss :: "string \<Rightarrow> string set \<Rightarrow> TrackedListing \<Rightarrow> bool" where
  "is_miss src seen row =
     (status row = ACTIVE \<and> source row = src \<and> row_identity row \<notin> seen)"

definition mark_missing ::
  "nat \<Rightarrow> string \<Rightarrow> string set \<Rightarrow> TrackedListing list \<Rightarrow> TrackedListing list \<times> TrackedListing list" where
  "mark_missing threshold src seen rows =
     (map (\<lambda>row. if is_miss src seen row then fst (miss_step threshold row) else row) rows,
      map (\<lambda>row. fst (miss_step threshold row))
        (filter (\<lambda>row. is_miss src seen row \<and> snd (miss_step threshold row)) rows))"





subsection \<open>Price string parsing\<close>

text \<open>
  Modelled from the spec: \<^verbatim>\<open>_parse_price_string\<close> of \<^verbatim>\<open>src/normalizer/price.py\<close>, which
  is not among the source files (the collectors call it on the text matched by
  \<^verbatim>\<open>[\d.,]+\<close>). The definitions follow section 4.1 of the specification: ``a value with
  both \<^verbatim>\<open>.\<close> and \<^verbatim>\<open>,\<close> resolves by taking the right-most separator as decimal; a value
  with only \<^verbatim>\<open>.\<close> treats it as a thousands separator only when exactly three digits
  follow; a value with only \<^verbatim>\<open>,\<close> applies the same three-digit heuristic. Any parsed
  value outside [100, 50000] is rejected as implausible (returns absence, not an error).''
\<close>

definition is_digit :: "char \<Rightarrow> bool" where
  "is_digit c = (let n = of_char c :: nat in 48 \<le> n \<and> n \<le> 57)"

definition digits_value :: "string \<Rightarrow> nat" where
  "digits_value ds = foldl (\<lambda>n c. 10 * n + (of_char c - 48)) 0 ds"

text \<open>
  Modelled from the spec: the number written with the integer digits \<open>ip\<close> and the
  fraction digits \<open>fp\<close>, and the reading of a string of digits with at most one decimal
  point (absent on any other string).
\<close>

definition decimal_value :: "string \<Rightarrow> string \<Rightarrow> real" where
  "decimal_value ip fp = real (digits_value ip) + real (digits_value fp) / 10 ^ length fp"

definition parse_decimal :: "string \<Rightarrow> real option" where
  "parse_decimal s =
     (let ip = takeWhile (\<lambda>c. c \<noteq> CHR ''.'') s;
          fp = drop 1 (dropWhile (\<lambda>c. c \<noteq> CHR ''.'') s)
      in if list_all is_digit ip \<and> list_all is_digit fp \<and> (ip \<noteq> [] \<or> fp \<noteq> [])
         then Some (decimal_value ip fp) else None)"

text \<open>Modelled from the spec: the text after the last occurrence of a separator.\<close>

definition after_last :: "char \<Rightarrow> string \<Rightarrow> string" where
  "after_last sep s = rev (takeWhile (\<lambda>c. c \<noteq> sep) (rev s))"

definition three_digits_follow :: "char \<Rightarrow> string \<Rightarrow> bool" where
  "three_digits_follow sep s =
     (length (after_last sep s) = 3 \<and> list_all is_digit (after_last sep s))"

definition remove_char :: "char \<Rightarrow> string \<Rightarrow> string" where
  "remove_char sep s = filter (\<lambda>c. c \<noteq> sep) s"

definition comma_to_point :: "string \<Rightarrow> string" where
  "comma_to_point s = map (\<lambda>c. if c = CHR '','' then CHR ''.'' else c) s"

definition resolve_separators :: "string \<Rightarrow> string" where
  "resolve_separators s =
     (if CHR ''.'' \<in> set s \<and> CHR '','' \<in> set s then
        (if length (after_last CHR ''.'' s) < length (after_last CHR '','' s)
         then remove_char CHR '','' s
         else comma_to_point (remove_char CHR ''.'' s))
      else if CHR ''.'' \<in> set s then
        (if three_digits_follow CHR ''.'' s then remove_char CHR ''.'' s else s)
      else if CHR '','' \<in> set s then
        (if three_digits_follow CHR '','' s then remove_char CHR '','' s else comma_to_point s)
      else s)"

definition plausible :: "real \<Rightarrow> real option" where
  "plausible v = (if 100 \<le> v \<and> v \<le> 50000 then Some v else None)"

definition parse_price_string :: "string \<Rightarrow> real option" where
  "parse_price_string s =
     (case parse_decimal (resolve_separators s) of None \<Rightarrow> None | Some v \<Rightarrow> plausible v)"

section \<open>Properties of the dedupe score\<close>

text \<open>The price cases of \<^verbatim>\<open>tests/test_dedupe.py\<close>, and a title of the same file.\<close>

lemma closeness_examples:
  "closeness DEDUPE_PRICE_TOLERANCE_EUR (Some 1500) (Some 1520) (5 / 10) = 6 / 10"
  "closeness DEDUPE_PRICE_TOLERANCE_EUR (Some 1500) (Some 2100) (5 / 10) = 0"
  "closeness DEDUPE_PRICE_TOLERANCE_EUR None None (5 / 10) = 5 / 10"
  "closeness DEDUPE_AREA_TOLERANCE_M2 (Some 65) None (3 / 10) = 0"
  by (simp_all add: closeness_def DEDUPE_PRICE_TOLERANCE_EUR_def DEDUPE_AREA_TOLERANCE_M2_def)

lemma clean_title_example:
  "clean_title ''Te huur: Appartement Ferdinand Bolstraat 45'' = ''appartement ferdinand bolstraat 45''"
  by code_simp

lemma closeness_sym: "closeness tol x y n = closeness tol y x n"
  by (cases x; cases y) (simp_all add: closeness_def abs_minus_commute)

lemma urls_same_property_sym: "urls_same_property up x y = urls_same_property up y x"
  by (auto simp: urls_same_property_def)

lemma boost_images: "85 / 100 \<le> boost True u c"
  by (simp add: boost_def Let_def max_def)

lemma boost_url: "90 / 100 \<le> boost im True c"
  by (simp add: boost_def Let_def)

lemma combined_eq:
  "combined (compute_dedupe_score tsr up a b) =
     boost (images_match (compute_dedupe_score tsr up a b))
       (url_match (compute_dedupe_score tsr up a b))
       (weighted_sum (title_sim (compute_dedupe_score tsr up a b))
          (price_sim (compute_dedupe_score tsr up a b))
          (area_sim (compute_dedupe_score tsr up a b))
          (url_match (compute_dedupe_score tsr up a b))
          (images_match (compute_dedupe_score tsr up a b))
          (address_sim (compute_dedupe_score tsr up a b)))"
  by (simp add: compute_dedupe_score_def Let_def)

lemma images_match_eq:
  "images_match (compute_dedupe_score tsr up a b) =
     (truthy (images_hash a) \<and> truthy (images_hash b) \<and> images_hash a = images_hash b)"
  by (auto simp: compute_dedupe_score_def Let_def)

lemma url_match_eq:
  "url_match (compute_dedupe_score tsr up a b) =
     (url a \<noteq> [] \<and> url b \<noteq> [] \<and> urls_same_property up (url a) (url b))"
  by (auto simp: compute_dedupe_score_def Let_def)

lemma combined_floor_images:
  "images_match (compute_dedupe_score tsr up a b) \<Longrightarrow>
   85 / 100 \<le> combined (compute_dedupe_score tsr up a b)"
  using boost_images by (simp add: combined_eq)

lemma combined_floor_url:
  "url_match (compute_dedupe_score tsr up a b) \<Longrightarrow>
   90 / 100 \<le> combined (compute_dedupe_score tsr up a b)"
  using boost_url by (simp add: combined_eq)

text \<open>
  C1. An image hash or a URL is present when the code's truth test accepts it: it is not
  \<^verbatim>\<open>None\<close> and not empty (the normalizer yields \<^verbatim>\<open>None\<close> or an md5 hexdigest for the
  hash, and the empty string for a missing URL). When the image hashes of both listings
  are present and equal, the combined score is at least 0.85; when both URLs are present
  and \<^verbatim>\<open>_urls_same_property\<close> holds of them, it is at least 0.90. Nothing is assumed of
  the other signals, the title ratio or the URL parser.
\<close>

theorem compute_dedupe_score_floors:
  "(truthy (images_hash a) \<and> truthy (images_hash b) \<and> images_hash a = images_hash b
      \<longrightarrow> 85 / 100 \<le> combined (compute_dedupe_score tsr up a b))
   \<and> (url a \<noteq> [] \<and> url b \<noteq> [] \<and> urls_same_property up (url a) (url b)
      \<longrightarrow> 90 / 100 \<le> combined (compute_dedupe_score tsr up a b))"
proof (intro conjI impI)
  assume "truthy (images_hash a) \<and> truthy (images_hash b) \<and> images_hash a = images_hash b"
  then have "images_match (compute_dedupe_score tsr up a b)"
    by (simp add: images_match_eq)
  then show "85 / 100 \<le> combined (compute_dedupe_score tsr up a b)"
    by (rule combined_floor_images)
next
  assume "url a \<noteq> [] \<and> url b \<noteq> [] \<and> urls_same_property up (url a) (url b)"
  then have "url_match (compute_dedupe_score tsr up a b)"
    by (simp add: url_match_eq)
  then show "90 / 100 \<le> combined (compute_dedupe_score tsr up a b)"
    by (rule combined_floor_url)
qed

theorem compute_dedupe_score_floors_witness:
  "truthy (images_hash listing_a) \<and> truthy (images_hash listing_b)
   \<and> images_hash listing_a = images_hash listing_b
   \<and> url listing_a \<noteq> [] \<and> url listing_b \<noteq> []
   \<and> urls_same_property simple_urlparse (url listing_a) (url listing_b)
   \<and> 85 / 100 \<le> combined (compute_dedupe_score exact_ratio simple_urlparse listing_a listing_b)
   \<and> 90 / 100 \<le> combined (compute_dedupe_score exact_ratio simple_urlparse listing_a listing_b)"
  using compute_dedupe_score_floors [of listing_a listing_b exact_ratio simple_urlparse]
  by (simp add: listing_a_def listing_b_def truthy_def urls_same_property_def)

text \<open>
  C6. The combined score is symmetric in the two listings, for every URL parser and every
  title ratio that is itself symmetric (as \<^verbatim>\<open>token_sort_ratio\<close> is: it compares the
  sorted token strings by a normalised edit distance).
\<close>

theorem compute_dedupe_score_symmetric:
  assumes "\<forall>x y. tsr x y = tsr y x"
  shows "combined (compute_dedupe_score tsr up a b) = combined (compute_dedupe_score tsr up b a)"
proof -
  have t: "tsr x y = tsr y x" for x y
    using assms by blast
  have u: "urls_same_property up (url a) (url b) = urls_same_property up (url b) (url a)"
    by (rule urls_same_property_sym)
  have p: "closeness tol (price_total_eur a) (price_total_eur b) n
           = closeness tol (price_total_eur b) (price_total_eur a) n" for tol n
    by (rule closeness_sym)
  have ar: "closeness tol (area_m2 a) (area_m2 b) n
            = closeness tol (area_m2 b) (area_m2 a) n" for tol n
    by (rule closeness_sym)
  show ?thesis
    unfolding compute_dedupe_score_def Let_def
    by (simp add: t [of "clean_title (title a)"] t [of "py_lower (raw_location_text a)"]
        u p ar conj_commute eq_commute [of "images_hash a"])
qed

theorem compute_dedupe_score_symmetric_witness:
  "(\<forall>x y. exact_ratio x y = exact_ratio y x)
   \<and> combined (compute_dedupe_score exact_ratio simple_urlparse listing_a listing_b)
     = combined (compute_dedupe_score exact_ratio simple_urlparse listing_b listing_a)"
proof -
  have h: "\<forall>x y. exact_ratio x y = exact_ratio y x"
    by (simp add: exact_ratio_def)
  show ?thesis
    using h compute_dedupe_score_symmetric [OF h, of simple_urlparse listing_a listing_b]
    by simp
qed

section \<open>Properties of \<^verbatim>\<open>find_duplicate\<close>\<close>

lemma find_duplicate_loop_snoc:
  "find_duplicate_loop tsr up l i (xs @ [x]) st =
     find_duplicate_step tsr up l (i + length xs) x (find_duplicate_loop tsr up l i xs st)"
  by (induction xs arbitrary: i st) simp_all

lemma step_skip:
  "\<not> qualifies tsr up l x \<Longrightarrow> find_duplicate_step tsr up l i x st = st"
  by (auto simp: find_duplicate_step_def qualifies_def considered_def Let_def)

lemma step_first:
  "qualifies tsr up l x \<Longrightarrow>
   find_duplicate_step tsr up l i x (None, None) = (Some i, Some (compute_dedupe_score tsr up l x))"
  by (auto simp: find_duplicate_step_def qualifies_def considered_def Let_def)

lemma step_next:
  "qualifies tsr up l x \<Longrightarrow>
   find_duplicate_step tsr up l i x (Some k, Some s) =
     (if combined s < combined (compute_dedupe_score tsr up l x)
      then (Some i, Some (compute_dedupe_score tsr up l x)) else (Some k, Some s))"
  by (auto simp: find_duplicate_step_def qualifies_def considered_def Let_def)

lemma best_inv_empty: "best_inv tsr up l [] (None, None)"
  by (simp add: best_inv_def)

lemma best_inv_step:
  assumes "best_inv tsr up l xs st"
  shows "best_inv tsr up l (xs @ [x]) (find_duplicate_step tsr up l (length xs) x st)"
proof (cases "qualifies tsr up l x")
  case False
  then have eq: "find_duplicate_step tsr up l (length xs) x st = st"
    by (rule step_skip)
  show ?thesis
    using assms False unfolding eq best_inv_def
    by (auto split: option.splits simp: nth_append less_Suc_eq)
next
  case True
  show ?thesis
  proof (cases st)
    case (Pair a b)
    show ?thesis
    proof (cases a)
      case None
      with assms Pair have b: "b = None" and no: "\<forall>e \<in> set xs. \<not> qualifies tsr up l e"
        by (auto simp: best_inv_def split: option.splits)
      have none: "\<forall>j < length xs. \<not> qualifies tsr up l (xs ! j)"
        using no by simp
      show ?thesis
        unfolding Pair None b step_first [OF True] best_inv_def
        using True none by (auto simp: nth_append less_Suc_eq)
    next
      case (Some k)
      with assms Pair obtain s where b: "b = Some s"
        by (auto simp: best_inv_def split: option.splits)
      from assms have inv: "k < length xs" "qualifies tsr up l (xs ! k)"
        "s = compute_dedupe_score tsr up l (xs ! k)"
        "\<forall>j < length xs. qualifies tsr up l (xs ! j) \<longrightarrow>
           combined (compute_dedupe_score tsr up l (xs ! j)) \<le> combined s"
        "\<forall>j < k. qualifies tsr up l (xs ! j) \<longrightarrow>
           combined (compute_dedupe_score tsr up l (xs ! j)) < combined s"
        unfolding Pair Some b best_inv_def by auto
      show ?thesis
      proof (cases "combined s < combined (compute_dedupe_score tsr up l x)")
        case True
        note beats = this
        have "find_duplicate_step tsr up l (length xs) x st
              = (Some (length xs), Some (compute_dedupe_score tsr up l x))"
          unfolding Pair Some b using step_next [OF \<open>qualifies tsr up l x\<close>] beats by simp
        then show ?thesis
          unfolding best_inv_def using \<open>qualifies tsr up l x\<close> inv beats
          by (auto simp: nth_append less_Suc_eq)
      next
        case False
        have "find_duplicate_step tsr up l (length xs) x st = (Some k, Some s)"
          unfolding Pair Some b using step_next [OF \<open>qualifies tsr up l x\<close>] False by simp
        then show ?thesis
          unfolding best_inv_def using \<open>qualifies tsr up l x\<close> inv False
          by (auto simp: nth_append less_Suc_eq)
      qed
    qed
  qed
qed

lemma best_inv_loop: "best_inv tsr up l xs (find_duplicate_loop tsr up l 0 xs (None, None))"
proof (induction xs rule: rev_induct)
  case Nil
  show ?case by (simp add: best_inv_empty)
next
  case (snoc x xs)
  show ?case
    using best_inv_step [OF snoc] by (simp add: find_duplicate_loop_snoc)
qed

lemma listing_b_qualifies: "qualifies exact_ratio simple_urlparse listing_a listing_b"
proof -
  have "url_match (compute_dedupe_score exact_ratio simple_urlparse listing_a listing_b)"
    by (simp add: url_match_eq urls_same_property_def listing_a_def listing_b_def)
  then have "90 / 100 \<le> combined (compute_dedupe_score exact_ratio simple_urlparse listing_a listing_b)"
    by (rule combined_floor_url)
  then show ?thesis
    by (simp add: qualifies_def considered_def DEDUPE_COMBINED_THRESHOLD_def
        listing_a_def listing_b_def)
qed

lemma find_duplicate_example:
  "find_duplicate exact_ratio simple_urlparse listing_a candidates =
     (Some ''456'',
      Some \<lparr>title_sim = 0, price_sim = 0, area_sim = 0, url_match = True,
             images_match = True, address_sim = 0, combined = 9 / 10\<rparr>)"
  by (simp add: find_duplicate_def find_duplicate_step_def compute_dedupe_score_def Let_def
      candidates_def listing_a_def listing_b_def listing_c_def listing_d_def listing_f_def
      truthy_def urls_same_property_def simple_urlparse_def exact_ratio_def closeness_def
      boost_def weighted_sum_def DEDUPE_COMBINED_THRESHOLD_def DEDUPE_PRICE_TOLERANCE_EUR_def
      clean_title_def py_lower_def py_strip_def collapse_ws_def sub_prefix_def sub_te_huur_def
      strip_word_def strip_sep_def lower_char_def is_space_def)

text \<open>
  C2. \<^verbatim>\<open>find_duplicate\<close> considers only candidates from another source whose matched
  neighbourhood does not disagree with the listing's when both are known. If none of
  them reaches the combined threshold it returns \<^verbatim>\<open>(None, None)\<close>. Otherwise it returns
  the \<^verbatim>\<open>source_id\<close> and the score of a qualifying candidate whose combined score is
  maximal among the qualifying ones and strictly larger than that of every qualifying
  candidate before it: ties go to the first one encountered.
\<close>

theorem find_duplicate_best:
  "(if \<forall>e \<in> set cs. \<not> qualifies tsr up l e
    then find_duplicate tsr up l cs = (None, None)
    else \<exists>i < length cs.
           qualifies tsr up l (cs ! i)
           \<and> find_duplicate tsr up l cs
               = (source_id (cs ! i), Some (compute_dedupe_score tsr up l (cs ! i)))
           \<and> (\<forall>j < length cs. qualifies tsr up l (cs ! j) \<longrightarrow>
                  combined (compute_dedupe_score tsr up l (cs ! j))
                  \<le> combined (compute_dedupe_score tsr up l (cs ! i)))
           \<and> (\<forall>j < i. qualifies tsr up l (cs ! j) \<longrightarrow>
                  combined (compute_dedupe_score tsr up l (cs ! j))
                  < combined (compute_dedupe_score tsr up l (cs ! i))))"
proof -
  obtain a b where st: "find_duplicate_loop tsr up l 0 cs (None, None) = (a, b)"
    by (cases "find_duplicate_loop tsr up l 0 cs (None, None)")
  have inv: "best_inv tsr up l cs (a, b)"
    using best_inv_loop [of tsr up l cs] by (simp add: st)
  show ?thesis
  proof (cases a)
    case None
    with inv have "b = None" and "\<forall>e \<in> set cs. \<not> qualifies tsr up l e"
      by (auto simp: best_inv_def split: option.splits)
    then show ?thesis
      by (simp add: find_duplicate_def st None)
  next
    case (Some k)
    with inv obtain s where b: "b = Some s"
      by (auto simp: best_inv_def split: option.splits)
    from inv have k: "k < length cs" "qualifies tsr up l (cs ! k)"
      "s = compute_dedupe_score tsr up l (cs ! k)"
      "\<forall>j < length cs. qualifies tsr up l (cs ! j) \<longrightarrow>
         combined (compute_dedupe_score tsr up l (cs ! j)) \<le> combined s"
      "\<forall>j < k. qualifies tsr up l (cs ! j) \<longrightarrow>
         combined (compute_dedupe_score tsr up l (cs ! j)) < combined s"
      unfolding Some b best_inv_def by auto
    have ex: "\<not> (\<forall>e \<in> set cs. \<not> qualifies tsr up l e)"
      using k(1,2) nth_mem by blast
    have res: "find_duplicate tsr up l cs = (source_id (cs ! k), Some s)"
      by (simp add: find_duplicate_def st Some b)
    show ?thesis
      using ex res k by (auto intro!: exI [of _ k])
  qed
qed

theorem find_duplicate_best_witness:
  "(\<exists>e \<in> set candidates. qualifies exact_ratio simple_urlparse listing_a e)
   \<and> (\<exists>i < length candidates.
          qualifies exact_ratio simple_urlparse listing_a (candidates ! i)
          \<and> find_duplicate exact_ratio simple_urlparse listing_a candidates
              = (source_id (candidates ! i),
                 Some (compute_dedupe_score exact_ratio simple_urlparse listing_a (candidates ! i)))
          \<and> (\<forall>j < length candidates.
                 qualifies exact_ratio simple_urlparse listing_a (candidates ! j) \<longrightarrow>
                 combined (compute_dedupe_score exact_ratio simple_urlparse listing_a (candidates ! j))
                 \<le> combined (compute_dedupe_score exact_ratio simple_urlparse listing_a (candidates ! i)))
          \<and> (\<forall>j < i.
                 qualifies exact_ratio simple_urlparse listing_a (candidates ! j) \<longrightarrow>
                 combined (compute_dedupe_score exact_ratio simple_urlparse listing_a (candidates ! j))
                 < combined (compute_dedupe_score exact_ratio simple_urlparse listing_a (candidates ! i))))"
proof -
  have ex: "\<exists>e \<in> set candidates. qualifies exact_ratio simple_urlparse listing_a e"
    using listing_b_qualifies by (simp add: candidates_def)
  then have "\<not> (\<forall>e \<in> set candidates. \<not> qualifies exact_ratio simple_urlparse listing_a e)"
    by blast
  with find_duplicate_best [of candidates exact_ratio simple_urlparse listing_a] ex
  show ?thesis
    by presburger
qed

text \<open>
  C10. Whenever \<^verbatim>\<open>find_duplicate\<close> returns a match (a score that is not \<^verbatim>\<open>None\<close>),
  the first component of the result is the \<^verbatim>\<open>source_id\<close> field of the candidate at the
  winning index, whose score is the second component. A \<open>NormalizedListing\<close> has no
  \<^verbatim>\<open>dedupe_id\<close> field at all.
\<close>

theorem find_duplicate_returns_source_id:
  assumes "snd (find_duplicate tsr up l cs) \<noteq> None"
  shows "\<exists>i < length cs.
           fst (find_duplicate_loop tsr up l 0 cs (None, None)) = Some i
           \<and> fst (find_duplicate tsr up l cs) = source_id (cs ! i)
           \<and> snd (find_duplicate tsr up l cs) = Some (compute_dedupe_score tsr up l (cs ! i))"
proof -
  obtain a b where st: "find_duplicate_loop tsr up l 0 cs (None, None) = (a, b)"
    by (cases "find_duplicate_loop tsr up l 0 cs (None, None)")
  have inv: "best_inv tsr up l cs (a, b)"
    using best_inv_loop [of tsr up l cs] by (simp add: st)
  from assms obtain k s where ab: "a = Some k" "b = Some s"
    by (auto simp: find_duplicate_def st split: option.splits)
  from inv have "k < length cs" and "s = compute_dedupe_score tsr up l (cs ! k)"
    unfolding ab best_inv_def by auto
  then show ?thesis
    by (auto simp: find_duplicate_def st ab)
qed

theorem find_duplicate_returns_source_id_witness:
  "snd (find_duplicate exact_ratio simple_urlparse listing_a candidates) \<noteq> None
   \<and> (\<exists>i < length candidates.
          fst (find_duplicate_loop exact_ratio simple_urlparse listing_a 0 candidates (None, None))
            = Some i
          \<and> fst (find_duplicate exact_ratio simple_urlparse listing_a candidates)
              = source_id (candidates ! i)
          \<and> snd (find_duplicate exact_ratio simple_urlparse listing_a candidates)
              = Some (compute_dedupe_score exact_ratio simple_urlparse listing_a (candidates ! i)))"
proof -
  have h: "snd (find_duplicate exact_ratio simple_urlparse listing_a candidates) \<noteq> None"
    by (simp add: find_duplicate_example)
  show ?thesis
    using h find_duplicate_returns_source_id [OF h] by blast
qed

section \<open>Properties of the filter step\<close>

lemma filter_loop_spec:
  "filter_loop ns (kept, n) =
     (kept @ filter (\<lambda>l. \<not> dropped l) ns, n + length (filter dropped ns))"
  by (induction ns arbitrary: kept n) (auto simp: dropped_def split: option.splits)

lemma filter_listings_example:
  "filter_listings [listing_a, listing_f, listing_g, listing_e1] = ([listing_a, listing_g], 2)"
  by (simp add: filter_listings_def listing_a_def listing_f_def listing_g_def listing_e1_def
      MAX_PRICE_EUR_def)

text \<open>
  C7. The filter step keeps, in order, exactly the records that are not dropped, where a
  record is dropped when its neighbourhood match is absent or its price is present and at
  least \<open>MAX_PRICE_EUR\<close>; \<^verbatim>\<open>filtered_count\<close> counts the dropped ones. In particular
  every record with a neighbourhood match and an unknown price is kept.
\<close>

theorem filter_listings_spec:
  "fst (filter_listings ns) = filter (\<lambda>l. \<not> dropped l) ns
   \<and> snd (filter_listings ns) = length (filter dropped ns)
   \<and> (\<forall>l \<in> set ns. neighborhood_match l \<noteq> None \<and> price_total_eur l = None
         \<longrightarrow> l \<in> set (fst (filter_listings ns)))"
  by (auto simp: filter_listings_def filter_loop_spec dropped_def)

theorem filter_listings_spec_witness:
  "listing_g \<in> set [listing_a, listing_g, listing_e1]
   \<and> neighborhood_match listing_g \<noteq> None \<and> price_total_eur listing_g = None
   \<and> listing_g \<in> set (fst (filter_listings [listing_a, listing_g, listing_e1]))"
proof -
  have h: "listing_g \<in> set [listing_a, listing_g, listing_e1]"
    "neighborhood_match listing_g \<noteq> None" "price_total_eur listing_g = None"
    by (simp_all add: listing_g_def)
  show ?thesis
    using h filter_listings_spec [of "[listing_a, listing_g, listing_e1]"] by blast
qed

section \<open>Properties of the dedupe step of the pipeline\<close>

lemma pairs_snoc: "pairs (xs @ [x]) = pairs xs @ [(to_normalized x, x)]"
  by (simp add: pairs_def)

lemma cross_source_loop_snoc:
  "cross_source_loop tsr up l (ps @ [p]) st =
     cross_source_step tsr up l p (cross_source_loop tsr up l ps st)"
  by (induction ps arbitrary: st) simp_all

lemma source_to_normalized: "source (to_normalized sl) = source sl"
  by (simp add: to_normalized_def)

lemma cross_step_skip:
  "\<not> cross_match tsr up l x \<Longrightarrow> cross_source_step tsr up l (to_normalized x, x) st = st"
  by (auto simp: cross_source_step_def cross_match_def stored_score_def Let_def
      source_to_normalized)

lemma cross_step_match:
  "cross_match tsr up l x \<Longrightarrow>
   cross_source_step tsr up l (to_normalized x, x) st =
     (if snd st < stored_score tsr up l x then (Some (dedupe_id x), stored_score tsr up l x)
      else st)"
  by (auto simp: cross_source_step_def cross_match_def stored_score_def Let_def
      source_to_normalized)

lemma cross_match_pos: "cross_match tsr up l x \<Longrightarrow> 0 < stored_score tsr up l x"
  by (simp add: cross_match_def DEDUPE_COMBINED_THRESHOLD_def)

lemma cross_inv_step:
  assumes "cross_inv tsr up l xs st"
  shows "cross_inv tsr up l (xs @ [x]) (cross_source_step tsr up l (to_normalized x, x) st)"
proof (cases "cross_match tsr up l x")
  case False
  then have eq: "cross_source_step tsr up l (to_normalized x, x) st = st"
    by (rule cross_step_skip)
  show ?thesis
  proof (cases "fst st")
    case None
    with assms False show ?thesis
      unfolding eq cross_inv_def by auto
  next
    case (Some d)
    with assms obtain k where k: "k < length xs" "d = dedupe_id (xs ! k)"
      "snd st = stored_score tsr up l (xs ! k)" "cross_match tsr up l (xs ! k)"
      "\<forall>j < length xs. cross_match tsr up l (xs ! j) \<longrightarrow>
         stored_score tsr up l (xs ! j) \<le> stored_score tsr up l (xs ! k)"
      "\<forall>j < k. cross_match tsr up l (xs ! j) \<longrightarrow>
         stored_score tsr up l (xs ! j) < stored_score tsr up l (xs ! k)"
      unfolding cross_inv_def by auto
    show ?thesis
      unfolding eq cross_inv_def Some
      using k False by (auto intro!: exI [of _ k] simp: nth_append less_Suc_eq)
  qed
next
  case True
  note m = this
  show ?thesis
  proof (cases "fst st")
    case None
    with assms have z: "snd st = 0" and no: "\<forall>sl \<in> set xs. \<not> cross_match tsr up l sl"
      unfolding cross_inv_def by auto
    have none: "\<forall>j < length xs. \<not> cross_match tsr up l (xs ! j)"
      using no by simp
    have "cross_source_step tsr up l (to_normalized x, x) st
          = (Some (dedupe_id x), stored_score tsr up l x)"
      using cross_step_match [OF m, of st] cross_match_pos [OF m] z by simp
    then show ?thesis
      unfolding cross_inv_def using m none
      by (auto intro!: exI [of _ "length xs"] simp: nth_append less_Suc_eq)
  next
    case (Some d)
    with assms obtain k where k: "k < length xs" "d = dedupe_id (xs ! k)"
      "snd st = stored_score tsr up l (xs ! k)" "cross_match tsr up l (xs ! k)"
      "\<forall>j < length xs. cross_match tsr up l (xs ! j) \<longrightarrow>
         stored_score tsr up l (xs ! j) \<le> stored_score tsr up l (xs ! k)"
      "\<forall>j < k. cross_match tsr up l (xs ! j) \<longrightarrow>
         stored_score tsr up l (xs ! j) < stored_score tsr up l (xs ! k)"
      unfolding cross_inv_def by auto
    show ?thesis
    proof (cases "snd st < stored_score tsr up l x")
      case True
      then have "cross_source_step tsr up l (to_normalized x, x) st
                 = (Some (dedupe_id x), stored_score tsr up l x)"
        using cross_step_match [OF m, of st] by simp
      then show ?thesis
        unfolding cross_inv_def using m k True
        by (auto intro!: exI [of _ "length xs"] simp: nth_append less_Suc_eq)
    next
      case False
      then have "cross_source_step tsr up l (to_normalized x, x) st = st"
        using cross_step_match [OF m, of st] by simp
      then show ?thesis
        unfolding cross_inv_def Some using m k False
        by (auto intro!: exI [of _ k] simp: nth_append less_Suc_eq Some)
    qed
  qed
qed

lemma cross_inv_loop:
  "cross_inv tsr up l xs (cross_source_loop tsr up l (pairs xs) (None, 0))"
proof (induction xs rule: rev_induct)
  case Nil
  show ?case by (simp add: cross_inv_def pairs_def)
next
  case (snoc x xs)
  show ?case
    using cross_inv_step [OF snoc] by (simp add: pairs_snoc cross_source_loop_snoc)
qed

lemma existing_dedupe_map_None:
  assumes "\<forall>sl \<in> set xs. \<not> (source sl = source l \<and> source_id sl = source_id l)"
  shows "existing_dedupe_map xs (source l, source_id l) = None"
proof -
  have "(source l, source_id l) \<notin> fst ` set (rev (map (\<lambda>sl. ((source sl, source_id sl), dedupe_id sl))
                    (filter (\<lambda>sl. truthy (source_id sl)) xs)))"
    using assms by auto
  then show ?thesis
    unfolding existing_dedupe_map_def by (rule map_of_eq_None_iff [THEN iffD2])
qed

lemmas eval_defs = compute_dedupe_score_def Let_def
      truthy_def urls_same_property_def simple_urlparse_def exact_ratio_def closeness_def
      boost_def weighted_sum_def DEDUPE_COMBINED_THRESHOLD_def DEDUPE_PRICE_TOLERANCE_EUR_def
      DEDUPE_AREA_TOLERANCE_M2_def
      clean_title_def py_lower_def py_strip_def collapse_ws_def sub_prefix_def sub_te_huur_def
      strip_word_def strip_sep_def lower_char_def is_space_def

lemma stored_b_cross_match: "cross_match exact_ratio simple_urlparse listing_a stored_b"
proof -
  have "url_match (compute_dedupe_score exact_ratio simple_urlparse listing_a (to_normalized stored_b))"
    by (simp add: url_match_eq urls_same_property_def listing_a_def stored_b_def to_normalized_def)
  then have "90 / 100 \<le> stored_score exact_ratio simple_urlparse listing_a stored_b"
    unfolding stored_score_def by (rule combined_floor_url)
  then show ?thesis
    by (simp add: cross_match_def DEDUPE_COMBINED_THRESHOLD_def listing_a_def stored_b_def)
qed

subsection \<open>\<^verbatim>\<open>generate_dedupe_id\<close> and the assignment of ids\<close>

lemma hex_digit_inj:
  assumes "d < 16" and "e < 16" and "hex_digit d = hex_digit e"
  shows "d = e"
proof -
  have "distinct ''0123456789abcdef''" by simp
  moreover have "d < length ''0123456789abcdef''" "e < length ''0123456789abcdef''"
    using assms(1,2) by simp_all
  ultimately show ?thesis
    using assms(3) unfolding hex_digit_def by (simp only: nth_eq_iff_index_eq)
qed

lemma hex_byte_inj:
  assumes "b < 256" and "c < 256" and "hex_byte b = hex_byte c"
  shows "b = c"
proof -
  have hi: "b div 16 < 16" "c div 16 < 16"
    using assms(1,2) by simp_all
  have lo: "b mod 16 < 16" "c mod 16 < 16"
    by simp_all
  from assms(3) have e: "hex_digit (b div 16) = hex_digit (c div 16)"
    "hex_digit (b mod 16) = hex_digit (c mod 16)"
    by (simp_all add: hex_byte_def)
  have d: "b div 16 = c div 16"
    by (rule hex_digit_inj [OF hi e(1)])
  have m: "b mod 16 = c mod 16"
    by (rule hex_digit_inj [OF lo e(2)])
  have "b = 16 * (b div 16) + b mod 16" by simp
  also have "\<dots> = 16 * (c div 16) + c mod 16" by (simp only: d m)
  also have "\<dots> = c" by simp
  finally show ?thesis .
qed

lemma length_hex_bytes: "length (hex_bytes bs) = 2 * length bs"
  by (induction bs) (simp_all add: hex_bytes_def hex_byte_def)

lemma hex_bytes_inj:
  assumes "length u = length v" and "list_all (\<lambda>b. b < 256) u" and "list_all (\<lambda>b. b < 256) v"
    and "hex_bytes u = hex_bytes v"
  shows "u = v"
  using assms
proof (induction u v rule: list_induct2)
  case Nil
  show ?case by simp
next
  case (Cons x xs y ys)
  from Cons.prems(3) have "hex_byte x @ hex_bytes xs = hex_byte y @ hex_bytes ys"
    by (simp add: hex_bytes_def)
  then have "hex_byte x = hex_byte y" "hex_bytes xs = hex_bytes ys"
    by (simp_all add: hex_byte_def)
  with Cons show ?case
    by (auto dest: hex_byte_inj)
qed

lemma split_groups:
  "take 8 h @ take 4 (drop 8 h) @ take 4 (drop 12 h) @ take 4 (drop 16 h) @ drop 20 h = h"
proof -
  have a: "take 4 (drop 16 h) @ drop 20 h = drop 16 h"
    using append_take_drop_id [of 4 "drop 16 h"] by simp
  have b: "take 4 (drop 12 h) @ drop 16 h = drop 12 h"
    using append_take_drop_id [of 4 "drop 12 h"] by simp
  have c: "take 4 (drop 8 h) @ drop 12 h = drop 8 h"
    using append_take_drop_id [of 4 "drop 8 h"] by simp
  show ?thesis
    by (simp only: a b c append_take_drop_id)
qed

lemma length_uuid_str: "is_uuid u \<Longrightarrow> length (uuid_str u) = 36"
  by (simp add: uuid_str_def Let_def length_hex_bytes is_uuid_def)

lemma joined_eq:
  assumes "length a = length b" and "a @ c # r = b @ c # s"
  shows "a = b \<and> r = s"
  using assms by simp

lemma uuid_str_inj:
  assumes "is_uuid u" and "is_uuid v" and "uuid_str u = uuid_str v"
  shows "u = v"
proof -
  define h where "h = hex_bytes u"
  define k where "k = hex_bytes v"
  have len: "length h = 32" "length k = 32"
    using assms(1,2) by (simp_all add: h_def k_def length_hex_bytes is_uuid_def)
  have eq: "take 8 h @ CHR ''-'' # (take 4 (drop 8 h) @ CHR ''-'' # (take 4 (drop 12 h)
              @ CHR ''-'' # (take 4 (drop 16 h) @ CHR ''-'' # drop 20 h)))
            = take 8 k @ CHR ''-'' # (take 4 (drop 8 k) @ CHR ''-'' # (take 4 (drop 12 k)
              @ CHR ''-'' # (take 4 (drop 16 k) @ CHR ''-'' # drop 20 k)))"
    using assms(3) unfolding uuid_str_def Let_def h_def [symmetric] k_def [symmetric] by simp
  have l1: "length (take 8 h) = length (take 8 k)" using len by simp
  have l2: "length (take 4 (drop 8 h)) = length (take 4 (drop 8 k))" using len by simp
  have l3: "length (take 4 (drop 12 h)) = length (take 4 (drop 12 k))" using len by simp
  have l4: "length (take 4 (drop 16 h)) = length (take 4 (drop 16 k))" using len by simp
  note e1 = joined_eq [OF l1 eq]
  note e2 = joined_eq [OF l2 conjunct2 [OF e1]]
  note e3 = joined_eq [OF l3 conjunct2 [OF e2]]
  note e4 = joined_eq [OF l4 conjunct2 [OF e3]]
  have "take 8 h @ take 4 (drop 8 h) @ take 4 (drop 12 h) @ take 4 (drop 16 h) @ drop 20 h
        = take 8 k @ take 4 (drop 8 k) @ take 4 (drop 12 k) @ take 4 (drop 16 k) @ drop 20 k"
    by (simp only: conjunct1 [OF e1] conjunct1 [OF e2] conjunct1 [OF e3] e4)
  then have "h = k"
    by (simp only: split_groups)
  then have "hex_bytes u = hex_bytes v"
    by (simp only: h_def k_def)
  moreover have "length u = length v" "list_all (\<lambda>b. b < 256) u" "list_all (\<lambda>b. b < 256) v"
    using assms(1,2) by (simp_all add: is_uuid_def)
  ultimately show ?thesis
    by (simp only: hex_bytes_inj)
qed

lemma generate_dedupe_id_length: "is_uuid u \<Longrightarrow> length (generate_dedupe_id u) = 36"
  by (simp add: generate_dedupe_id_def length_uuid_str)

lemma generate_dedupe_id_inj:
  "is_uuid u \<Longrightarrow> is_uuid v \<Longrightarrow> generate_dedupe_id u = generate_dedupe_id v \<Longrightarrow> u = v"
  unfolding generate_dedupe_id_def by (rule uuid_str_inj)

lemma stored_ids:
  "generate_dedupe_id uuid_b = dedupe_id stored_b"
  "generate_dedupe_id uuid_d = dedupe_id stored_d"
  "is_uuid uuid_b" "is_uuid uuid_d" "is_uuid uuid_new"
  "uuid_b \<noteq> uuid_new" "uuid_d \<noteq> uuid_new"
  by (simp_all add: generate_dedupe_id_def uuid_str_def hex_bytes_def hex_byte_def hex_digit_def
      is_uuid_def uuid_b_def uuid_d_def uuid_new_def stored_b_def stored_d_def Let_def)

lemma resolve_dedupe_id_example:
  "resolve_dedupe_id exact_ratio simple_urlparse uuid_new [stored_b, stored_d] listing_a
     = ''7d2a9e40-1c5b-4f0a-8e6d-112233445566''"
  "resolve_dedupe_id exact_ratio simple_urlparse uuid_new [] listing_a
     = ''3ac701fe-900c-41d7-b308-0061e221a049''"
  by (simp_all add: resolve_dedupe_id_def existing_dedupe_map_def cross_source_step_def
      to_normalized_def stored_b_def stored_d_def listing_a_def eval_defs
      generate_dedupe_id_def uuid_str_def hex_bytes_def hex_byte_def hex_digit_def uuid_new_def)

lemma resolve_dedupe_id_cases:
  assumes "\<forall>sl \<in> set existing. \<not> (source sl = source l \<and> source_id sl = source_id l)"
  shows "if \<forall>sl \<in> set existing. \<not> cross_match tsr up l sl
         then resolve_dedupe_id tsr up drawn existing l = generate_dedupe_id drawn
         else \<exists>k < length existing.
                cross_match tsr up l (existing ! k)
                \<and> (\<forall>j < length existing. cross_match tsr up l (existing ! j) \<longrightarrow>
                      stored_score tsr up l (existing ! j) \<le> stored_score tsr up l (existing ! k))
                \<and> (\<forall>j < k. cross_match tsr up l (existing ! j) \<longrightarrow>
                      stored_score tsr up l (existing ! j) < stored_score tsr up l (existing ! k))
                \<and> resolve_dedupe_id tsr up drawn existing l
                    = (if dedupe_id (existing ! k) \<noteq> [] then dedupe_id (existing ! k)
                       else generate_dedupe_id drawn)"
proof -
  define st where "st = cross_source_loop tsr up l (pairs existing) (None, 0)"
  have inv: "cross_inv tsr up l existing st"
    unfolding st_def by (rule cross_inv_loop)
  have res: "resolve_dedupe_id tsr up drawn existing l =
               (case fst st of None \<Rightarrow> generate_dedupe_id drawn
                | Some d \<Rightarrow> if d \<noteq> [] then d else generate_dedupe_id drawn)"
    unfolding resolve_dedupe_id_def Let_def st_def pairs_def
    by (simp add: existing_dedupe_map_None [OF assms])
  show ?thesis
  proof (cases "fst st")
    case None
    with inv have "\<forall>sl \<in> set existing. \<not> cross_match tsr up l sl"
      unfolding cross_inv_def by simp
    then show ?thesis
      by (simp add: res None)
  next
    case (Some d)
    with inv obtain k where k: "k < length existing" "d = dedupe_id (existing ! k)"
      "cross_match tsr up l (existing ! k)"
      "\<forall>j < length existing. cross_match tsr up l (existing ! j) \<longrightarrow>
         stored_score tsr up l (existing ! j) \<le> stored_score tsr up l (existing ! k)"
      "\<forall>j < k. cross_match tsr up l (existing ! j) \<longrightarrow>
         stored_score tsr up l (existing ! j) < stored_score tsr up l (existing ! k)"
      unfolding cross_inv_def by auto
    have ex: "\<not> (\<forall>sl \<in> set existing. \<not> cross_match tsr up l sl)"
      using k(1,3) nth_mem by blast
    show ?thesis
      using ex k by (auto intro!: exI [of _ k] simp: res Some)
  qed
qed

text \<open>
  C3. Take a kept record with no ACTIVE row of the same source and \<^verbatim>\<open>source_id\<close>, a
  snapshot in which every \<^verbatim>\<open>dedupe_id\<close> is the string of a UUID drawn earlier (the
  pipeline stores only ids it finds in the store or generates), and the UUID that
  \<^verbatim>\<open>uuid4\<close> draws now, different from the earlier ones. If some ACTIVE row of another source
  reaches the combined threshold, the record gets the \<^verbatim>\<open>dedupe_id\<close> of the first row, in
  snapshot order, whose combined score is maximal among those rows. If none does, it
  gets the freshly generated id: the 36-character string of the drawn UUID, which differs
  from every stored \<^verbatim>\<open>dedupe_id\<close> and from the string of every other UUID.
\<close>

theorem resolve_dedupe_id_cross_source:
  assumes "\<forall>sl \<in> set existing. \<not> (source sl = source l \<and> source_id sl = source_id l)"
    and "is_uuid drawn"
    and "\<forall>sl \<in> set existing.
           \<exists>v. is_uuid v \<and> v \<noteq> drawn \<and> dedupe_id sl = generate_dedupe_id v"
  shows "if \<forall>sl \<in> set existing. \<not> cross_match tsr up l sl
         then resolve_dedupe_id tsr up drawn existing l = generate_dedupe_id drawn
              \<and> length (generate_dedupe_id drawn) = 36
              \<and> (\<forall>sl \<in> set existing. dedupe_id sl \<noteq> generate_dedupe_id drawn)
              \<and> (\<forall>v. is_uuid v \<and> v \<noteq> drawn \<longrightarrow>
                     generate_dedupe_id v \<noteq> generate_dedupe_id drawn)
         else \<exists>k < length existing.
                cross_match tsr up l (existing ! k)
                \<and> (\<forall>j < length existing. cross_match tsr up l (existing ! j) \<longrightarrow>
                      stored_score tsr up l (existing ! j) \<le> stored_score tsr up l (existing ! k))
                \<and> (\<forall>j < k. cross_match tsr up l (existing ! j) \<longrightarrow>
                      stored_score tsr up l (existing ! j) < stored_score tsr up l (existing ! k))
                \<and> resolve_dedupe_id tsr up drawn existing l = dedupe_id (existing ! k)"
proof -
  have uniq: "\<forall>v. is_uuid v \<and> v \<noteq> drawn \<longrightarrow>
                generate_dedupe_id v \<noteq> generate_dedupe_id drawn"
    using generate_dedupe_id_inj [OF _ assms(2)] by blast
  have fresh: "\<forall>sl \<in> set existing. dedupe_id sl \<noteq> generate_dedupe_id drawn"
    using assms(3) uniq by metis
  have nonempty: "\<forall>sl \<in> set existing. dedupe_id sl \<noteq> []"
  proof
    fix sl assume "sl \<in> set existing"
    with assms(3) obtain v where "is_uuid v" "dedupe_id sl = generate_dedupe_id v"
      by blast
    then have "length (dedupe_id sl) = 36"
      by (simp add: generate_dedupe_id_length)
    then show "dedupe_id sl \<noteq> []"
      by auto
  qed
  note cases = resolve_dedupe_id_cases [OF assms(1), of tsr up drawn]
  show ?thesis
  proof (cases "\<forall>sl \<in> set existing. \<not> cross_match tsr up l sl")
    case True
    with cases have "resolve_dedupe_id tsr up drawn existing l = generate_dedupe_id drawn"
      by simp
    with True uniq fresh generate_dedupe_id_length [OF assms(2)] show ?thesis
      by simp
  next
    case False
    with cases obtain k where k: "k < length existing" "cross_match tsr up l (existing ! k)"
      "\<forall>j < length existing. cross_match tsr up l (existing ! j) \<longrightarrow>
         stored_score tsr up l (existing ! j) \<le> stored_score tsr up l (existing ! k)"
      "\<forall>j < k. cross_match tsr up l (existing ! j) \<longrightarrow>
         stored_score tsr up l (existing ! j) < stored_score tsr up l (existing ! k)"
      "resolve_dedupe_id tsr up drawn existing l
         = (if dedupe_id (existing ! k) \<noteq> [] then dedupe_id (existing ! k)
            else generate_dedupe_id drawn)"
      by auto
    from k(1) nonempty have "dedupe_id (existing ! k) \<noteq> []"
      by simp
    with k(5) have "resolve_dedupe_id tsr up drawn existing l = dedupe_id (existing ! k)"
      by simp
    with False k(1-4) show ?thesis
      by auto
  qed
qed

theorem resolve_dedupe_id_cross_source_witness:
  "\<not> (source stored_b = source listing_a \<and> source_id stored_b = source_id listing_a)
   \<and> \<not> (source stored_d = source listing_a \<and> source_id stored_d = source_id listing_a)
   \<and> is_uuid uuid_new
   \<and> dedupe_id stored_b = generate_dedupe_id uuid_b \<and> uuid_b \<noteq> uuid_new
   \<and> dedupe_id stored_d = generate_dedupe_id uuid_d \<and> uuid_d \<noteq> uuid_new
   \<and> (\<exists>sl \<in> set [stored_b, stored_d]. cross_match exact_ratio simple_urlparse listing_a sl)
   \<and> (\<exists>k < length [stored_b, stored_d].
         cross_match exact_ratio simple_urlparse listing_a ([stored_b, stored_d] ! k)
         \<and> (\<forall>j < length [stored_b, stored_d].
               cross_match exact_ratio simple_urlparse listing_a ([stored_b, stored_d] ! j) \<longrightarrow>
               stored_score exact_ratio simple_urlparse listing_a ([stored_b, stored_d] ! j)
               \<le> stored_score exact_ratio simple_urlparse listing_a ([stored_b, stored_d] ! k))
         \<and> (\<forall>j < k.
               cross_match exact_ratio simple_urlparse listing_a ([stored_b, stored_d] ! j) \<longrightarrow>
               stored_score exact_ratio simple_urlparse listing_a ([stored_b, stored_d] ! j)
               < stored_score exact_ratio simple_urlparse listing_a ([stored_b, stored_d] ! k))
         \<and> resolve_dedupe_id exact_ratio simple_urlparse uuid_new [stored_b, stored_d] listing_a
             = dedupe_id ([stored_b, stored_d] ! k))
   \<and> \<not> (source stored_p = source listing_a \<and> source_id stored_p = source_id listing_a)
   \<and> \<not> cross_match exact_ratio simple_urlparse listing_a stored_p
   \<and> resolve_dedupe_id exact_ratio simple_urlparse uuid_new [stored_p] listing_a
       = generate_dedupe_id uuid_new
   \<and> length (generate_dedupe_id uuid_new) = 36
   \<and> dedupe_id stored_p \<noteq> generate_dedupe_id uuid_new"
proof -
  have h: "\<forall>sl \<in> set [stored_b, stored_d].
             \<not> (source sl = source listing_a \<and> source_id sl = source_id listing_a)"
    by (simp add: stored_b_def stored_d_def listing_a_def)
  have inv: "\<forall>sl \<in> set [stored_b, stored_d].
               \<exists>v. is_uuid v \<and> v \<noteq> uuid_new \<and> dedupe_id sl = generate_dedupe_id v"
    using stored_ids by (auto intro: exI [of _ uuid_b] exI [of _ uuid_d])
  have ex: "\<exists>sl \<in> set [stored_b, stored_d]. cross_match exact_ratio simple_urlparse listing_a sl"
    using stored_b_cross_match by simp
  then have n: "\<not> (\<forall>sl \<in> set [stored_b, stored_d].
                     \<not> cross_match exact_ratio simple_urlparse listing_a sl)"
    by blast
  have e: "\<not> (source stored_b = source listing_a \<and> source_id stored_b = source_id listing_a)"
    "\<not> (source stored_d = source listing_a \<and> source_id stored_d = source_id listing_a)"
    using h by simp_all
  have hp: "\<forall>sl \<in> set [stored_p].
              \<not> (source sl = source listing_a \<and> source_id sl = source_id listing_a)"
    by (simp add: stored_p_def listing_a_def)
  have idp: "dedupe_id stored_p = generate_dedupe_id uuid_b"
    using stored_ids(1) by (simp add: stored_p_def stored_b_def)
  have invp: "\<forall>sl \<in> set [stored_p].
                \<exists>v. is_uuid v \<and> v \<noteq> uuid_new \<and> dedupe_id sl = generate_dedupe_id v"
    using stored_ids idp by (auto intro: exI [of _ uuid_b])
  have np: "\<not> cross_match exact_ratio simple_urlparse listing_a stored_p"
    by (simp add: cross_match_def stored_p_def listing_a_def)
  then have allp: "\<forall>sl \<in> set [stored_p]. \<not> cross_match exact_ratio simple_urlparse listing_a sl"
    by simp
  have ep: "\<not> (source stored_p = source listing_a \<and> source_id stored_p = source_id listing_a)"
    using hp by simp
  have m: "\<exists>k < length [stored_b, stored_d].
         cross_match exact_ratio simple_urlparse listing_a ([stored_b, stored_d] ! k)
         \<and> (\<forall>j < length [stored_b, stored_d].
               cross_match exact_ratio simple_urlparse listing_a ([stored_b, stored_d] ! j) \<longrightarrow>
               stored_score exact_ratio simple_urlparse listing_a ([stored_b, stored_d] ! j)
               \<le> stored_score exact_ratio simple_urlparse listing_a ([stored_b, stored_d] ! k))
         \<and> (\<forall>j < k.
               cross_match exact_ratio simple_urlparse listing_a ([stored_b, stored_d] ! j) \<longrightarrow>
               stored_score exact_ratio simple_urlparse listing_a ([stored_b, stored_d] ! j)
               < stored_score exact_ratio simple_urlparse listing_a ([stored_b, stored_d] ! k))
         \<and> resolve_dedupe_id exact_ratio simple_urlparse uuid_new [stored_b, stored_d] listing_a
             = dedupe_id ([stored_b, stored_d] ! k)"
    using resolve_dedupe_id_cross_source
            [OF h stored_ids(5) inv, of exact_ratio simple_urlparse] n
    by presburger
  have f: "resolve_dedupe_id exact_ratio simple_urlparse uuid_new [stored_p] listing_a
             = generate_dedupe_id uuid_new
           \<and> length (generate_dedupe_id uuid_new) = 36
           \<and> (\<forall>sl \<in> set [stored_p]. dedupe_id sl \<noteq> generate_dedupe_id uuid_new)"
    using resolve_dedupe_id_cross_source
            [OF hp stored_ids(5) invp, of exact_ratio simple_urlparse] allp
    by presburger
  then have f3: "dedupe_id stored_p \<noteq> generate_dedupe_id uuid_new"
    by simp
  from e stored_ids ex m ep np f f3 show ?thesis
    by (simp only: simp_thms)
qed

section \<open>Properties of \<^verbatim>\<open>safe_collect\<close>\<close>

lemma safe_collect_propagates_iff:
  "(\<exists>exc. fst (safe_collect n oc) = Inl exc)
   \<longleftrightarrow> (\<exists>e gathered. oc = Raises (BaseException_only e) gathered)"
  by (cases oc) (auto simp: safe_collect_def split: py_exception.splits)

text \<open>
  C8 (as amended). When \<^verbatim>\<open>collect()\<close> returns, \<^verbatim>\<open>safe_collect\<close> returns its list and
  logs its length. When \<^verbatim>\<open>collect()\<close> raises an instance of \<^verbatim>\<open>Exception\<close>, the error is
  caught and logged and the empty list is returned, whatever \<^verbatim>\<open>collect()\<close> had gathered.
  When \<^verbatim>\<open>collect()\<close> raises an exception that is not an instance of \<^verbatim>\<open>Exception\<close>, it
  propagates and nothing is logged; \<^verbatim>\<open>safe_collect\<close> raises in this case and in no other.
\<close>

theorem safe_collect_outcomes:
  "(\<forall>listings. oc = Returns listings \<longrightarrow>
      safe_collect n oc = (Inr listings, [Info_collected n (length listings)]))
   \<and> (\<forall>e gathered. oc = Raises (Exception_instance e) gathered \<longrightarrow>
          safe_collect n oc = (Inr [], [Error_collection_failed n e]))
   \<and> (\<forall>e gathered. oc = Raises (BaseException_only e) gathered \<longrightarrow>
          safe_collect n oc = (Inl (BaseException_only e), []))
   \<and> ((\<exists>exc. fst (safe_collect n oc) = Inl exc)
        \<longleftrightarrow> (\<exists>e gathered. oc = Raises (BaseException_only e) gathered))"
  using safe_collect_propagates_iff [of n oc] by (simp add: safe_collect_def)

theorem safe_collect_outcomes_witness:
  "safe_collect ''Funda'' (Returns [''https://www.funda.nl/detail/huur/1''])
     = (Inr [''https://www.funda.nl/detail/huur/1''], [Info_collected ''Funda'' 1])
   \<and> safe_collect ''Funda''
         (Raises (Exception_instance ''ReadTimeout'') [''https://www.funda.nl/detail/huur/1''])
     = (Inr [], [Error_collection_failed ''Funda'' ''ReadTimeout''])
   \<and> safe_collect ''Funda''
         (Raises (BaseException_only ''KeyboardInterrupt'') [''https://www.funda.nl/detail/huur/1''])
     = (Inl (BaseException_only ''KeyboardInterrupt''), [])"
  using safe_collect_outcomes [of "Returns [''https://www.funda.nl/detail/huur/1'']" "''Funda''"]
    safe_collect_outcomes
      [of "Raises (Exception_instance ''ReadTimeout'') [''https://www.funda.nl/detail/huur/1'']"
          "''Funda''"]
    safe_collect_outcomes
      [of "Raises (BaseException_only ''KeyboardInterrupt'') [''https://www.funda.nl/detail/huur/1'']"
          "''Funda''"]
  by simp

text \<open>
  C8 as stated fails twice. A \<^verbatim>\<open>KeyboardInterrupt\<close> raised by \<^verbatim>\<open>collect()\<close> is not
  caught: it propagates and nothing is logged. And when a \<^verbatim>\<open>ReadTimeout\<close> is caught, the
  listing gathered before it is not returned: the result is the empty list.
\<close>

theorem safe_collect_counterexample:
  "safe_collect ''Funda''
     (Raises (BaseException_only ''KeyboardInterrupt'') [''https://www.funda.nl/detail/huur/1''])
     = (Inl (BaseException_only ''KeyboardInterrupt''), [])
   \<and> fst (safe_collect ''Funda''
            (Raises (Exception_instance ''ReadTimeout'') [''https://www.funda.nl/detail/huur/1'']))
       = Inr []
   \<and> fst (safe_collect ''Funda''
            (Raises (Exception_instance ''ReadTimeout'') [''https://www.funda.nl/detail/huur/1'']))
       \<noteq> Inr [''https://www.funda.nl/detail/huur/1'']"
  by (simp add: safe_collect_def)

section \<open>Properties of the neighbourhood matcher\<close>

text \<open>The two examples of the specification.\<close>

lemma match_neighborhood_examples:
  "match_neighborhood [] ''De Pijp, Amsterdam'' []
     = \<lparr>name = Some ''De Pijp'', confidence = 9 / 10, ambiguous = False\<rparr>"
  "match_neighborhood ''Nice flat in Bijlmer'' ''Amsterdam Zuidoost'' []
     = \<lparr>name = None, confidence = 0, ambiguous = False\<rparr>"
  by code_simp+

text \<open>
  The tie-break looks at the first two entries of the sorted list only: of these two it
  returns the longer name, and the first one when they are equally long.
\<close>

lemma tie_break_first_two:
  assumes "sort_key (\<lambda>x. - snd x) (neighborhood_matches registry t l d)
           = (n1, c) # (n2, c) # others"
  shows "name (match_neighborhood_in registry t l d)
         = Some (if length n1 < length n2 then n2 else n1)"
  by (simp add: match_neighborhood_in_def assms)

lemma tie_matches:
  "neighborhood_matches TARGET_NEIGHBORHOODS ''Mooi appartement'' ''Amsterdam'' tie_description
     = [(''De Baarsjes'', 65 / 100), (''Houthavens'', 65 / 100), (''Plantagebuurt'', 65 / 100)]"
  by code_simp

text \<open>
  C9. The tie-break compares only the first two entries of the sorted list. For the
  description above three neighbourhoods tie at 0.65; the matcher returns
  \<open>De Baarsjes\<close> (11 characters, first in the registry), which is longer than the second
  entry \<open>Houthavens\<close>, although the tied \<open>Plantagebuurt\<close> (13 characters) is longer.
\<close>

theorem match_neighborhood_three_way_tie:
  "neighborhood_matches TARGET_NEIGHBORHOODS ''Mooi appartement'' ''Amsterdam'' tie_description
     = [(''De Baarsjes'', 65 / 100), (''Houthavens'', 65 / 100), (''Plantagebuurt'', 65 / 100)]
   \<and> match_neighborhood ''Mooi appartement'' ''Amsterdam'' tie_description
     = \<lparr>name = Some ''De Baarsjes'', confidence = 65 / 100, ambiguous = True\<rparr>
   \<and> length ''De Baarsjes'' < length ''Plantagebuurt''"
  by (simp add: match_neighborhood_def match_neighborhood_in_def tie_matches)

section \<open>Properties of the change-tracking store\<close>

lemma mark_missing_nth:
  "i < length rows \<Longrightarrow>
   fst (mark_missing n src seen rows) ! i =
     (if is_miss src seen (rows ! i) then fst (miss_step n (rows ! i)) else rows ! i)"
  by (simp add: mark_missing_def)








section \<open>Properties of price string parsing\<close>

lemma digit_not_point: "is_digit c \<Longrightarrow> c \<noteq> CHR ''.''"
  by (auto simp: is_digit_def)

lemma digit_not_comma: "is_digit c \<Longrightarrow> c \<noteq> CHR '',''"
  by (auto simp: is_digit_def)

lemma digits_no_point: "list_all is_digit ds \<Longrightarrow> CHR ''.'' \<notin> set ds"
  using digit_not_point by (auto simp: list_all_iff)

lemma digits_no_comma: "list_all is_digit ds \<Longrightarrow> CHR '','' \<notin> set ds"
  using digit_not_comma by (auto simp: list_all_iff)

lemma takeWhile_until: "sep \<notin> set a \<Longrightarrow> takeWhile (\<lambda>c. c \<noteq> sep) (a @ sep # b) = a"
  by (induction a) auto

lemma dropWhile_until: "sep \<notin> set a \<Longrightarrow> dropWhile (\<lambda>c. c \<noteq> sep) (a @ sep # b) = sep # b"
  by (induction a) auto

lemma takeWhile_all: "sep \<notin> set a \<Longrightarrow> takeWhile (\<lambda>c. c \<noteq> sep) a = a"
  by (induction a) auto

lemma dropWhile_all: "sep \<notin> set a \<Longrightarrow> dropWhile (\<lambda>c. c \<noteq> sep) a = []"
  by (induction a) auto

lemma after_last_eq: "sep \<notin> set b \<Longrightarrow> after_last sep (a @ sep # b) = b"
  by (simp add: after_last_def takeWhile_until)

lemma remove_char_absent: "sep \<notin> set a \<Longrightarrow> remove_char sep a = a"
  by (induction a) (auto simp: remove_char_def)

lemma remove_char_append: "remove_char sep (a @ b) = remove_char sep a @ remove_char sep b"
  by (simp add: remove_char_def)

lemma remove_char_Cons: "remove_char sep (sep # b) = remove_char sep b"
  by (simp add: remove_char_def)

lemma remove_char_other: "c \<noteq> sep \<Longrightarrow> remove_char sep (c # b) = c # remove_char sep b"
  by (simp add: remove_char_def)

lemma comma_to_point_absent: "CHR '','' \<notin> set a \<Longrightarrow> comma_to_point a = a"
  by (induction a) (auto simp: comma_to_point_def)

lemma comma_to_point_append: "comma_to_point (a @ b) = comma_to_point a @ comma_to_point b"
  by (simp add: comma_to_point_def)

lemma comma_to_point_Cons: "comma_to_point (CHR '','' # b) = CHR ''.'' # comma_to_point b"
  by (simp add: comma_to_point_def)

lemma parse_decimal_point:
  assumes "list_all is_digit ip" and "list_all is_digit fp" and "ip \<noteq> [] \<or> fp \<noteq> []"
  shows "parse_decimal (ip @ CHR ''.'' # fp) = Some (decimal_value ip fp)"
  using assms
  by (simp add: parse_decimal_def Let_def takeWhile_until dropWhile_until digits_no_point)

lemma parse_decimal_integer:
  assumes "list_all is_digit ip" and "ip \<noteq> []"
  shows "parse_decimal ip = Some (real (digits_value ip))"
  using assms
  by (simp add: parse_decimal_def Let_def takeWhile_all dropWhile_all digits_no_point
      decimal_value_def digits_value_def)

lemma plausible_range: "plausible v = Some w \<Longrightarrow> 100 \<le> w \<and> w \<le> 50000"
  by (auto simp: plausible_def split: if_splits)

lemma parse_price_string_range:
  "parse_price_string s = Some v \<Longrightarrow> 100 \<le> v \<and> v \<le> 50000"
  by (auto simp: parse_price_string_def split: option.splits dest: plausible_range)

lemma resolve_lone_point:
  assumes "list_all is_digit a" and "list_all is_digit b"
  shows "resolve_separators (a @ CHR ''.'' # b)
         = (if length b = 3 then a @ b else a @ CHR ''.'' # b)"
  using assms
  by (simp add: resolve_separators_def three_digits_follow_def after_last_eq digits_no_point
      digits_no_comma remove_char_append remove_char_Cons remove_char_absent)

lemma resolve_lone_comma:
  assumes "list_all is_digit a" and "list_all is_digit b"
  shows "resolve_separators (a @ CHR '','' # b)
         = (if length b = 3 then a @ b else a @ CHR ''.'' # b)"
  using assms
  by (simp add: resolve_separators_def three_digits_follow_def after_last_eq digits_no_point
      digits_no_comma remove_char_append remove_char_Cons remove_char_absent
      comma_to_point_append comma_to_point_Cons comma_to_point_absent)

lemma after_last_two:
  "sep \<notin> set c \<Longrightarrow> sep \<noteq> other \<Longrightarrow> sep \<notin> set b \<Longrightarrow>
   after_last sep (a @ sep # b @ other # c) = b @ other # c"
  using after_last_eq [of sep "b @ other # c" a] by simp

lemma after_last_inner:
  "sep \<notin> set c \<Longrightarrow> after_last sep (a @ other # b @ sep # c) = c"
  using after_last_eq [of sep c "a @ other # b"] by simp

lemma resolve_point_comma:
  assumes "list_all is_digit a" and "list_all is_digit b" and "list_all is_digit c"
  shows "resolve_separators (a @ CHR ''.'' # b @ CHR '','' # c) = (a @ b) @ CHR ''.'' # c"
  using assms
  by (simp add: resolve_separators_def after_last_two after_last_inner digits_no_point
      digits_no_comma remove_char_append remove_char_Cons remove_char_other remove_char_absent
      comma_to_point_append comma_to_point_Cons comma_to_point_absent)

lemma resolve_comma_point:
  assumes "list_all is_digit a" and "list_all is_digit b" and "list_all is_digit c"
  shows "resolve_separators (a @ CHR '','' # b @ CHR ''.'' # c) = (a @ b) @ CHR ''.'' # c"
  using assms
  by (simp add: resolve_separators_def after_last_two after_last_inner digits_no_point
      digits_no_comma remove_char_append remove_char_Cons remove_char_other remove_char_absent)

lemma parse_lone_separator:
  assumes "list_all is_digit a" and "list_all is_digit b" and "a \<noteq> [] \<or> b \<noteq> []"
    and "sep = CHR ''.'' \<or> sep = CHR '',''"
  shows "parse_price_string (a @ sep # b)
         = plausible (if length b = 3 then real (digits_value (a @ b)) else decimal_value a b)"
proof -
  have r: "resolve_separators (a @ sep # b) = (if length b = 3 then a @ b else a @ CHR ''.'' # b)"
    using assms(4) resolve_lone_point [OF assms(1,2)] resolve_lone_comma [OF assms(1,2)] by auto
  show ?thesis
  proof (cases "length b = 3")
    case True
    then have "a @ b \<noteq> []" by auto
    moreover have "list_all is_digit (a @ b)" using assms(1,2) by simp
    ultimately have "parse_decimal (a @ b) = Some (real (digits_value (a @ b)))"
      by (rule parse_decimal_integer [rotated])
    with True show ?thesis
      by (simp add: parse_price_string_def r)
  next
    case False
    with parse_decimal_point [OF assms(1,2,3)] show ?thesis
      by (simp add: parse_price_string_def r)
  qed
qed

lemma parse_two_separators:
  assumes "list_all is_digit a" and "list_all is_digit b" and "list_all is_digit c"
    and "a @ b \<noteq> [] \<or> c \<noteq> []"
  shows "parse_price_string (a @ CHR ''.'' # b @ CHR '','' # c) = plausible (decimal_value (a @ b) c)"
    and "parse_price_string (a @ CHR '','' # b @ CHR ''.'' # c) = plausible (decimal_value (a @ b) c)"
proof -
  have ab: "list_all is_digit (a @ b)" using assms(1,2) by simp
  have d: "parse_decimal ((a @ b) @ CHR ''.'' # c) = Some (decimal_value (a @ b) c)"
    by (rule parse_decimal_point [OF ab assms(3,4)])
  show "parse_price_string (a @ CHR ''.'' # b @ CHR '','' # c) = plausible (decimal_value (a @ b) c)"
    unfolding parse_price_string_def resolve_point_comma [OF assms(1,2,3)] d by simp
  show "parse_price_string (a @ CHR '','' # b @ CHR ''.'' # c) = plausible (decimal_value (a @ b) c)"
    unfolding parse_price_string_def resolve_comma_point [OF assms(1,2,3)] d by simp
qed

lemma parse_price_examples:
  "parse_price_string ''1.500'' = Some 1500"
  "parse_price_string ''1.500,00'' = Some 1500"
  "parse_price_string ''1,500.00'' = Some 1500"
  by (simp_all add: parse_price_string_def resolve_separators_def three_digits_follow_def
      after_last_def remove_char_def comma_to_point_def parse_decimal_def decimal_value_def
      digits_value_def is_digit_def plausible_def Let_def)

text \<open>
  C5. The three strings of the specification parse to 1500. Every parsed value lies in
  [100, 50000]: anything else resolves to absence. For digit strings \<open>a\<close> and \<open>b\<close>, a lone
  separator between them is a thousands separator exactly when three digits follow it,
  and the decimal point otherwise. For digit strings \<open>a\<close>, \<open>b\<close>, \<open>c\<close> with both
  separators, the right-most separator is the decimal point and the other one is dropped.
\<close>

theorem parse_price_string_spec:
  "parse_price_string ''1.500'' = Some 1500
   \<and> parse_price_string ''1.500,00'' = Some 1500
   \<and> parse_price_string ''1,500.00'' = Some 1500
   \<and> (\<forall>v. parse_price_string s = Some v \<longrightarrow> 100 \<le> v \<and> v \<le> 50000)
   \<and> (list_all is_digit a \<and> list_all is_digit b \<and> (a \<noteq> [] \<or> b \<noteq> [])
        \<and> (sep = CHR ''.'' \<or> sep = CHR '','')
      \<longrightarrow> parse_price_string (a @ sep # b)
          = plausible (if length b = 3 then real (digits_value (a @ b)) else decimal_value a b))
   \<and> (list_all is_digit a \<and> list_all is_digit b \<and> list_all is_digit c
        \<and> (a @ b \<noteq> [] \<or> c \<noteq> [])
      \<longrightarrow> parse_price_string (a @ CHR ''.'' # b @ CHR '','' # c) = plausible (decimal_value (a @ b) c)
        \<and> parse_price_string (a @ CHR '','' # b @ CHR ''.'' # c) = plausible (decimal_value (a @ b) c))"
  using parse_price_examples parse_price_string_range [of s] parse_lone_separator [of a b sep]
    parse_two_separators [of a b c]
  by blast

theorem parse_price_string_spec_witness:
  "parse_price_string ''1250'' = Some 1250
   \<and> 100 \<le> (1250 :: real) \<and> (1250 :: real) \<le> 50000
   \<and> list_all is_digit ''1'' \<and> list_all is_digit ''250'' \<and> list_all is_digit ''50''
   \<and> parse_price_string (''1'' @ CHR ''.'' # ''250'')
       = plausible (if length ''250'' = 3 then real (digits_value (''1'' @ ''250''))
                    else decimal_value ''1'' ''250'')
   \<and> parse_price_string (''1'' @ CHR ''.'' # ''250'' @ CHR '','' # ''50'')
       = plausible (decimal_value (''1'' @ ''250'') ''50'')
   \<and> parse_price_string (''1'' @ CHR '','' # ''250'' @ CHR ''.'' # ''50'')
       = plausible (decimal_value (''1'' @ ''250'') ''50'')
   \<and> plausible (decimal_value (''1'' @ ''250'') ''50'') = Some (12505 / 10)"
proof -
  have p: "parse_price_string ''1250'' = Some 1250"
    by (simp add: parse_price_string_def resolve_separators_def parse_decimal_def
        decimal_value_def digits_value_def is_digit_def plausible_def Let_def)
  have d: "list_all is_digit ''1''" "list_all is_digit ''250''" "list_all is_digit ''50''"
    by (simp_all add: is_digit_def)
  have v: "plausible (decimal_value (''1'' @ ''250'') ''50'') = Some (12505 / 10)"
    by (simp add: plausible_def decimal_value_def digits_value_def)
  from parse_price_string_spec [of "''1250''" "''1''" "''250''" "CHR ''.''" "''50''"] p d v
  show ?thesis
    by simp
qed

end
